theory Spec2Isabelle
  imports Main "HOL-Library.Word"
begin

unbundle bit_operations_syntax

section \<open>smoldtb: a shallow embedding of \<^verbatim>\<open>src/smoldtb.c\<close>\<close>

text \<open>
  The embedding follows the default build of the source: logging enabled, no static
  buffer (\<^verbatim>\<open>SMOLDTB_STATIC_BUFFER_SIZE\<close> undefined), a little-endian host (the
  branch of \<^verbatim>\<open>be32\<close> that swaps bytes), and an LP64 target: \<^verbatim>\<open>size_t\<close> and
  \<^verbatim>\<open>uintmax_t\<close> are 64 bits wide.

  \<^item> Memory is the byte-addressed address space, a total function from addresses to
    bytes. The blob, the caller's strings and the output buffer of the serializer all
    live in it. Addresses are natural numbers; address arithmetic is not wrapped.
  \<^item> The arena (\<^verbatim>\<open>node_buff\<close>, \<^verbatim>\<open>prop_buff\<close>, \<^verbatim>\<open>handle_lookup\<close>) is kept apart from
    the byte memory, as three arrays indexed by slot number. A \<^verbatim>\<open>dtb_node*\<close> or
    \<^verbatim>\<open>dtb_prop*\<close> is the slot number, or \<open>None\<close> for \<^verbatim>\<open>NULL\<close>.
  \<^item> A loop that the source does not bound is a \<^theory_text>\<open>partial_function\<close> in the
    option monad: \<open>None\<close> means that the call does not produce a result.
\<close>

subsection \<open>Constants\<close>

definition FDT_MAGIC :: "32 word" where "FDT_MAGIC = 0xD00DFEED"
definition FDT_BEGIN_NODE :: "32 word" where "FDT_BEGIN_NODE = 1"
definition FDT_END_NODE :: "32 word" where "FDT_END_NODE = 2"
definition FDT_PROP :: "32 word" where "FDT_PROP = 3"
definition FDT_NOP :: "32 word" where "FDT_NOP = 4"
definition FDT_VERSION :: "32 word" where "FDT_VERSION = 17"
definition FDT_CELL_SIZE :: nat where "FDT_CELL_SIZE = 4"
definition ROOT_NODE_STR :: string where "ROOT_NODE_STR = ''/''"

definition SMOLDTB_FOREACH_CONTINUE :: int where "SMOLDTB_FOREACH_CONTINUE = 0"
definition SMOLDTB_FOREACH_ABORT :: int where "SMOLDTB_FOREACH_ABORT = 1"

subsection \<open>Memory, pointers to characters, byte order\<close>

type_synonym mem = "nat \<Rightarrow> 8 word"

text \<open>
  A \<^verbatim>\<open>const char*\<close> is \<^verbatim>\<open>NULL\<close>, an address in memory, or the address of a string
  literal of the program (whose bytes are the literal followed by a NUL).
\<close>

datatype cstr = CNull | CPtr nat | CLit string

text \<open>
  The byte \<^verbatim>\<open>s[i]\<close>. No call site of the functions below reads through \<^verbatim>\<open>NULL\<close> or
  past the terminator of a literal; the value given there is a placeholder.
\<close>

fun cstr_byte :: "mem \<Rightarrow> cstr \<Rightarrow> nat \<Rightarrow> 8 word" where
  "cstr_byte m CNull i = 0"
| "cstr_byte m (CPtr a) i = m (a + i)"
| "cstr_byte m (CLit s) i = (if i < length s then of_char (s ! i) else 0)"

text \<open>A load and a store of a \<^verbatim>\<open>uint32_t\<close> on the little-endian host.\<close>

definition rd32 :: "mem \<Rightarrow> nat \<Rightarrow> 32 word" where
  "rd32 m a = ucast (m a) OR push_bit 8 (ucast (m (a + 1)))
              OR push_bit 16 (ucast (m (a + 2))) OR push_bit 24 (ucast (m (a + 3)))"

definition wr32 :: "mem \<Rightarrow> nat \<Rightarrow> 32 word \<Rightarrow> mem" where
  "wr32 m a w = m(a := ucast w, a + 1 := ucast (drop_bit 8 w),
                  a + 2 := ucast (drop_bit 16 w), a + 3 := ucast (drop_bit 24 w))"

definition be32 :: "32 word \<Rightarrow> 32 word" where
  "be32 input =
     (let temp = 0;
          temp = temp OR push_bit 24 (input AND 0xFF);
          temp = temp OR push_bit 8 (input AND 0xFF00);
          temp = temp OR drop_bit 8 (input AND 0xFF0000);
          temp = temp OR drop_bit 24 (input AND 0xFF000000)
      in temp)"

subsection \<open>String helpers\<close>

partial_function (option) string_len_from :: "mem \<Rightarrow> cstr \<Rightarrow> nat \<Rightarrow> nat option" where
  "string_len_from m str count =
     (if cstr_byte m str count \<noteq> 0 then string_len_from m str (count + 1) else Some count)"

definition string_len :: "mem \<Rightarrow> cstr \<Rightarrow> nat option" where
  "string_len m str = (if str = CNull then Some 0 else string_len_from m str 0)"

function strings_eq_from :: "mem \<Rightarrow> cstr \<Rightarrow> cstr \<Rightarrow> nat \<Rightarrow> nat \<Rightarrow> bool" where
  "strings_eq_from m a b len i =
     (if i < len then
        (if cstr_byte m a i = 0 \<and> cstr_byte m b i = 0 then True
         else if cstr_byte m a i \<noteq> cstr_byte m b i then False
         else strings_eq_from m a b len (i + 1))
      else True)"
  by pat_completeness auto
termination
  by (relation "measure (\<lambda>(m, a, b, len, i). len - i)") auto

declare strings_eq_from.simps [simp del]

definition strings_eq :: "mem \<Rightarrow> cstr \<Rightarrow> cstr \<Rightarrow> nat \<Rightarrow> bool" where
  "strings_eq m a b len = strings_eq_from m a b len 0"

definition dtb_align_up :: "nat \<Rightarrow> nat \<Rightarrow> nat" where
  "dtb_align_up input alignment = ((input + alignment - 1) div alignment) * alignment"

subsection \<open>Parser records\<close>

record dtb_node =
  n_parent :: "nat option"
  n_sibling :: "nat option"
  n_child :: "nat option"
  n_props :: "nat option"
  n_name :: cstr

text \<open>
  \<open>p_first_cell\<close> is the address of the first payload cell (the source never tests it
  against \<^verbatim>\<open>NULL\<close>); \<open>p_length\<close> is the payload length in bytes.
\<close>

record dtb_prop =
  p_name :: cstr
  p_first_cell :: nat
  p_length :: nat
  p_next :: "nat option"

text \<open>
  Modelled from the spec: the header \<^verbatim>\<open>smoldtb.h\<close>, which declares \<^verbatim>\<open>dtb_ops\<close>,
  \<^verbatim>\<open>dtb_config\<close>, \<^verbatim>\<open>dtb_node_stat\<close>, \<^verbatim>\<open>dtb_pair\<close>, \<^verbatim>\<open>dtb_triplet\<close>, \<^verbatim>\<open>dtb_quad\<close>
  and \<^verbatim>\<open>SMOLDTB_FINALISE_FAILURE\<close>, is not among the sources. The fields are those the
  source file uses. Of each function pointer of \<^verbatim>\<open>dtb_ops\<close> only whether it is non-null
  is kept; \<^verbatim>\<open>malloc\<close> is taken to succeed.
\<close>

record dtb_ops =
  ops_malloc :: bool
  ops_free :: bool
  ops_on_error :: bool

record dtb_config =
  config_ver :: nat
  writable :: bool

record dtb_node_stat =
  stat_name :: cstr
  stat_prop_count :: nat
  stat_child_count :: nat
  stat_sibling_count :: nat

record dtb_pair =
  pair_a :: "64 word"
  pair_b :: "64 word"

record dtb_triplet =
  triplet_a :: "64 word"
  triplet_b :: "64 word"
  triplet_c :: "64 word"

record dtb_quad =
  quad_a :: "64 word"
  quad_b :: "64 word"
  quad_c :: "64 word"
  quad_d :: "64 word"

text \<open>
  \<open>errors\<close> lists the messages handed to \<^verbatim>\<open>ops.on_error\<close>, oldest first.
  \<open>node_buff_set\<close> says whether the pointer \<^verbatim>\<open>state.node_buff\<close> is non-null.
  \<open>handle_lookup\<close> is indexed by phandle; \<^verbatim>\<open>dtb_find_phandle\<close> reads slots below
  \<open>node_alloc_max\<close> only.
\<close>

record dtb_state =
  cells :: nat
  strings :: nat
  cell_count :: nat
  root :: "nat option"
  handle_lookup :: "nat \<Rightarrow> nat option"
  node_buff :: "nat \<Rightarrow> dtb_node"
  node_buff_set :: bool
  node_alloc_head :: nat
  node_alloc_max :: nat
  prop_buff :: "nat \<Rightarrow> dtb_prop"
  prop_alloc_head :: nat
  prop_alloc_max :: nat
  ops :: dtb_ops
  errors :: "string list"

definition LOG_ERROR :: "dtb_state \<Rightarrow> string \<Rightarrow> dtb_state" where
  "LOG_ERROR st msg = (if ops_on_error (ops st) then st\<lparr>errors := errors st @ [msg]\<rparr> else st)"

text \<open>The stores \<^verbatim>\<open>node->field = v\<close> and \<^verbatim>\<open>prop->field = v\<close> into an arena slot.\<close>

definition node_store :: "dtb_state \<Rightarrow> nat \<Rightarrow> (dtb_node \<Rightarrow> dtb_node) \<Rightarrow> dtb_state" where
  "node_store st i f = st\<lparr>node_buff := (node_buff st)(i := f (node_buff st i))\<rparr>"

definition prop_store :: "dtb_state \<Rightarrow> nat \<Rightarrow> (dtb_prop \<Rightarrow> dtb_prop) \<Rightarrow> dtb_state" where
  "prop_store st i f = st\<lparr>prop_buff := (prop_buff st)(i := f (prop_buff st i))\<rparr>"

text \<open>The cell \<^verbatim>\<open>state.cells[i]\<close>, as the host loads it.\<close>

definition cell :: "mem \<Rightarrow> dtb_state \<Rightarrow> nat \<Rightarrow> 32 word" where
  "cell m st i = rd32 m (cells st + 4 * i)"

subsection \<open>Property decoders\<close>

text \<open>
  \<^verbatim>\<open>extract_cells\<close>. The accumulator is a \<^verbatim>\<open>uintmax_t\<close>. For \<open>count > 2\<close> the source
  shifts a 64-bit value by 64 bits or more, which C leaves undefined; \<open>push_bit\<close> gives 0
  there, and nothing below relies on that value.
\<close>

function extract_cells_loop :: "mem \<Rightarrow> nat \<Rightarrow> nat \<Rightarrow> nat \<Rightarrow> 64 word \<Rightarrow> 64 word" where
  "extract_cells_loop m cells_p count i val =
     (if i < count then
        extract_cells_loop m cells_p count (i + 1)
          (val OR push_bit ((count - 1 - i) * 32) (ucast (be32 (rd32 m (cells_p + 4 * i)))))
      else val)"
  by pat_completeness auto
termination
  by (relation "measure (\<lambda>(m, cells_p, count, i, val). count - i)") auto

declare extract_cells_loop.simps [simp del]

definition extract_cells :: "mem \<Rightarrow> nat \<Rightarrow> nat \<Rightarrow> 64 word" where
  "extract_cells m cells_p count = extract_cells_loop m cells_p count 0 0"

function dtb_read_prop_string_loop :: "mem \<Rightarrow> nat \<Rightarrow> nat \<Rightarrow> nat \<Rightarrow> nat \<Rightarrow> nat \<Rightarrow> cstr" where
  "dtb_read_prop_string_loop m name bound index curr_index scan =
     (if scan < bound then
        (if m (name + scan) = 0 then
           dtb_read_prop_string_loop m name bound index (curr_index + 1) (scan + 1)
         else if curr_index = index then CPtr (name + scan)
         else dtb_read_prop_string_loop m name bound index curr_index (scan + 1))
      else CNull)"
  by pat_completeness auto
termination
  by (relation "measure (\<lambda>(m, name, bound, index, curr_index, scan). bound - scan)") auto

declare dtb_read_prop_string_loop.simps [simp del]

definition dtb_read_prop_string :: "mem \<Rightarrow> dtb_state \<Rightarrow> nat option \<Rightarrow> nat \<Rightarrow> cstr" where
  "dtb_read_prop_string m st prop index =
     (case prop of
        None \<Rightarrow> CNull
      | Some p \<Rightarrow>
          dtb_read_prop_string_loop m (p_first_cell (prop_buff st p))
            (p_length (prop_buff st p) * 4) index 0 0)"

text \<open>
  \<^verbatim>\<open>dtb_read_prop_values\<close>. The argument \<open>vals\<close> says whether the output pointer is
  non-null; the result is the returned count and the list of values written to
  \<^verbatim>\<open>vals[0]\<close>, \<^verbatim>\<open>vals[1]\<close>, ... in this order. The length is read again from the
  descriptor in the blob, two cells before the payload. \<open>None\<close>: the divisor
  \<^verbatim>\<open>cell_count * FDT_CELL_SIZE\<close> has wrapped to 0 and the division traps.
\<close>

function dtb_read_prop_values_loop :: "mem \<Rightarrow> nat \<Rightarrow> nat \<Rightarrow> nat \<Rightarrow> nat \<Rightarrow> 64 word list \<Rightarrow> 64 word list" where
  "dtb_read_prop_values_loop m first_cell cell_count' count i vals =
     (if i < count then
        (let base = first_cell + 4 * (i * cell_count')
         in dtb_read_prop_values_loop m first_cell cell_count' count (i + 1)
              (vals @ [extract_cells m base cell_count']))
      else vals)"
  by pat_completeness auto
termination
  by (relation "measure (\<lambda>(m, first_cell, cell_count', count, i, vals). count - i)") auto

declare dtb_read_prop_values_loop.simps [simp del]

definition dtb_read_prop_values ::
  "mem \<Rightarrow> dtb_state \<Rightarrow> nat option \<Rightarrow> 64 word \<Rightarrow> bool \<Rightarrow> (64 word \<times> 64 word list) option" where
  "dtb_read_prop_values m st prop cell_count' vals =
     (if prop = None \<or> cell_count' = 0 then Some (0, [])
      else
        let first_cell = p_first_cell (prop_buff st (the prop));
            fdtprop = first_cell - 8
        in if cell_count' * 4 = 0 then None
           else
             let count = ucast (be32 (rd32 m fdtprop)) div (cell_count' * 4)
             in if \<not> vals then Some (count, [])
                else Some (count,
                  dtb_read_prop_values_loop m first_cell (unat cell_count') (unat count) 0 []))"

function dtb_read_prop_pairs_loop :: "mem \<Rightarrow> nat \<Rightarrow> dtb_pair \<Rightarrow> nat \<Rightarrow> nat \<Rightarrow> dtb_pair list \<Rightarrow> dtb_pair list" where
  "dtb_read_prop_pairs_loop m first_cell layout count i vals =
     (if i < count then
        (let base = first_cell + 4 * (i * unat (pair_a layout + pair_b layout))
         in dtb_read_prop_pairs_loop m first_cell layout count (i + 1)
              (vals @ [\<lparr>pair_a = extract_cells m base (unat (pair_a layout)),
                        pair_b = extract_cells m (base + 4 * unat (pair_a layout)) (unat (pair_b layout))\<rparr>]))
      else vals)"
  by pat_completeness auto
termination
  by (relation "measure (\<lambda>(m, first_cell, layout, count, i, vals). count - i)") auto

declare dtb_read_prop_pairs_loop.simps [simp del]

definition dtb_read_prop_pairs ::
  "mem \<Rightarrow> dtb_state \<Rightarrow> nat option \<Rightarrow> dtb_pair \<Rightarrow> bool \<Rightarrow> (64 word \<times> dtb_pair list) option" where
  "dtb_read_prop_pairs m st prop layout vals =
     (if prop = None \<or> pair_a layout = 0 \<or> pair_b layout = 0 then Some (0, [])
      else
        let first_cell = p_first_cell (prop_buff st (the prop));
            fdtprop = first_cell - 8
        in if (pair_a layout + pair_b layout) * 4 = 0 then None
           else
             let count = ucast (be32 (rd32 m fdtprop)) div ((pair_a layout + pair_b layout) * 4)
             in if \<not> vals then Some (count, [])
                else Some (count, dtb_read_prop_pairs_loop m first_cell layout (unat count) 0 []))"

function dtb_read_prop_triplets_loop :: "mem \<Rightarrow> nat \<Rightarrow> dtb_triplet \<Rightarrow> nat \<Rightarrow> nat \<Rightarrow> nat \<Rightarrow> dtb_triplet list \<Rightarrow> dtb_triplet list" where
  "dtb_read_prop_triplets_loop m first_cell layout stride count i vals =
     (if i < count then
        (let base = first_cell + 4 * (i * stride)
         in dtb_read_prop_triplets_loop m first_cell layout stride count (i + 1)
              (vals @ [\<lparr>triplet_a = extract_cells m base (unat (triplet_a layout)),
                        triplet_b = extract_cells m (base + 4 * unat (triplet_a layout)) (unat (triplet_b layout)),
                        triplet_c = extract_cells m (base + 4 * unat (triplet_a layout) + 4 * unat (triplet_b layout))
                                      (unat (triplet_c layout))\<rparr>]))
      else vals)"
  by pat_completeness auto
termination
  by (relation "measure (\<lambda>(m, first_cell, layout, stride, count, i, vals). count - i)") auto

declare dtb_read_prop_triplets_loop.simps [simp del]

definition dtb_read_prop_triplets ::
  "mem \<Rightarrow> dtb_state \<Rightarrow> nat option \<Rightarrow> dtb_triplet \<Rightarrow> bool \<Rightarrow> (64 word \<times> dtb_triplet list) option" where
  "dtb_read_prop_triplets m st prop layout vals =
     (if prop = None \<or> triplet_a layout = 0 \<or> triplet_b layout = 0 \<or> triplet_c layout = 0
      then Some (0, [])
      else
        let first_cell = p_first_cell (prop_buff st (the prop));
            fdtprop = first_cell - 8;
            stride = triplet_a layout + triplet_b layout + triplet_c layout
        in if stride * 4 = 0 then None
           else
             let count = ucast (be32 (rd32 m fdtprop)) div (stride * 4)
             in if \<not> vals then Some (count, [])
                else Some (count,
                  dtb_read_prop_triplets_loop m first_cell layout (unat stride) (unat count) 0 []))"

function dtb_read_prop_quads_loop :: "mem \<Rightarrow> nat \<Rightarrow> dtb_quad \<Rightarrow> nat \<Rightarrow> nat \<Rightarrow> nat \<Rightarrow> dtb_quad list \<Rightarrow> dtb_quad list" where
  "dtb_read_prop_quads_loop m first_cell layout stride count i vals =
     (if i < count then
        (let base = first_cell + 4 * (i * stride)
         in dtb_read_prop_quads_loop m first_cell layout stride count (i + 1)
              (vals @ [\<lparr>quad_a = extract_cells m base (unat (quad_a layout)),
                        quad_b = extract_cells m (base + 4 * unat (quad_a layout)) (unat (quad_b layout)),
                        quad_c = extract_cells m (base + 4 * unat (quad_a layout) + 4 * unat (quad_b layout))
                                   (unat (quad_c layout)),
                        quad_d = extract_cells m (base + 4 * unat (quad_a layout) + 4 * unat (quad_b layout)
                                                   + 4 * unat (quad_c layout)) (unat (quad_d layout))\<rparr>]))
      else vals)"
  by pat_completeness auto
termination
  by (relation "measure (\<lambda>(m, first_cell, layout, stride, count, i, vals). count - i)") auto

declare dtb_read_prop_quads_loop.simps [simp del]

definition dtb_read_prop_quads ::
  "mem \<Rightarrow> dtb_state \<Rightarrow> nat option \<Rightarrow> dtb_quad \<Rightarrow> bool \<Rightarrow> (64 word \<times> dtb_quad list) option" where
  "dtb_read_prop_quads m st prop layout vals =
     (if prop = None \<or> quad_a layout = 0 \<or> quad_b layout = 0 \<or> quad_c layout = 0 \<or> quad_d layout = 0
      then Some (0, [])
      else
        let first_cell = p_first_cell (prop_buff st (the prop));
            fdtprop = first_cell - 8;
            stride = quad_a layout + quad_b layout + quad_c layout + quad_d layout
        in if stride * 4 = 0 then None
           else
             let count = ucast (be32 (rd32 m fdtprop)) div (stride * 4)
             in if \<not> vals then Some (count, [])
                else Some (count,
                  dtb_read_prop_quads_loop m first_cell layout (unat stride) (unat count) 0 []))"

subsection \<open>Arena allocator\<close>

definition zero_node :: dtb_node where
  "zero_node = \<lparr>n_parent = None, n_sibling = None, n_child = None, n_props = None, n_name = CNull\<rparr>"

definition zero_prop :: dtb_prop where
  "zero_prop = \<lparr>p_name = CNull, p_first_cell = 0, p_length = 0, p_next = None\<rparr>"

definition alloc_node :: "dtb_state \<Rightarrow> dtb_state \<times> nat option" where
  "alloc_node st =
     (if node_alloc_head st + 1 < node_alloc_max st
      then (st\<lparr>node_alloc_head := node_alloc_head st + 1\<rparr>, Some (node_alloc_head st))
      else ((if ops_on_error (ops st)
             then st\<lparr>errors := errors st @ [''Node allocator ran out of space'']\<rparr> else st), None))"

definition alloc_prop :: "dtb_state \<Rightarrow> dtb_state \<times> nat option" where
  "alloc_prop st =
     (if prop_alloc_head st + 1 < prop_alloc_max st
      then (st\<lparr>prop_alloc_head := prop_alloc_head st + 1\<rparr>, Some (prop_alloc_head st))
      else ((if ops_on_error (ops st)
             then st\<lparr>errors := errors st @ [''Property allocator ran out of space'']\<rparr> else st), None))"

definition free_buffers :: "dtb_state \<Rightarrow> dtb_state" where
  "free_buffers st =
     (if \<not> ops_free (ops st)
      then (if ops_on_error (ops st)
            then st\<lparr>errors := errors st @ [''ops.free() is NULL while trying to free buffers.'']\<rparr>
            else st)
      else st\<lparr>node_buff_set := False, node_alloc_max := 0, prop_alloc_max := 0\<rparr>)"

text \<open>The counting loop of \<^verbatim>\<open>alloc_buffers\<close>: one pass over every cell of the structure block.\<close>

function alloc_buffers_loop :: "mem \<Rightarrow> dtb_state \<Rightarrow> nat \<Rightarrow> dtb_state" where
  "alloc_buffers_loop m st i =
     (if i < cell_count st then
        (if be32 (cell m st i) = FDT_BEGIN_NODE
         then alloc_buffers_loop m (st\<lparr>node_alloc_max := node_alloc_max st + 1\<rparr>) (i + 1)
         else if be32 (cell m st i) = FDT_PROP
         then alloc_buffers_loop m (st\<lparr>prop_alloc_max := prop_alloc_max st + 1\<rparr>) (i + 1)
         else alloc_buffers_loop m st (i + 1))
      else st)"
  by pat_completeness auto
termination
  by (relation "measure (\<lambda>(m, st, i). cell_count st - i)") auto

declare alloc_buffers_loop.simps [simp del]

text \<open>
  \<^verbatim>\<open>alloc_buffers\<close>: the block obtained from \<^verbatim>\<open>malloc\<close> is zeroed, so every slot of the
  three arrays starts out as zeroes.
\<close>

definition alloc_buffers :: "mem \<Rightarrow> dtb_state \<Rightarrow> dtb_state" where
  "alloc_buffers m st =
     (let st1 = alloc_buffers_loop m (st\<lparr>node_alloc_max := 0, prop_alloc_max := 0\<rparr>) 0
      in st1\<lparr>node_buff := (\<lambda>i. zero_node), node_buff_set := True, node_alloc_head := 0,
              prop_buff := (\<lambda>i. zero_prop), prop_alloc_head := 0,
              handle_lookup := (\<lambda>i. None)\<rparr>)"

subsection \<open>Token-stream parser\<close>

text \<open>
  The two stores of \<^verbatim>\<open>check_for_special_prop\<close>: \<^verbatim>\<open>dtb_read_prop_values(prop, 1, &handle)\<close>
  followed by \<^verbatim>\<open>state.handle_lookup[handle] = node\<close>. \<open>None\<close>: the decoder wrote no
  value or more than one into the single local \<^verbatim>\<open>handle\<close>, or the slot lies outside the
  array; C leaves all three undefined.
\<close>

definition store_handle :: "mem \<Rightarrow> dtb_state \<Rightarrow> nat \<Rightarrow> nat \<Rightarrow> dtb_state option" where
  "store_handle m st node prop =
     (case dtb_read_prop_values m st (Some prop) 1 True of
        None \<Rightarrow> None
      | Some (count, vals) \<Rightarrow>
          (case vals of
             [handle] \<Rightarrow>
               if unat handle < node_alloc_max st
               then Some (st\<lparr>handle_lookup := (handle_lookup st)(unat handle := Some node)\<rparr>)
               else None
           | _ \<Rightarrow> None))"

definition check_for_special_prop :: "mem \<Rightarrow> dtb_state \<Rightarrow> nat \<Rightarrow> nat \<Rightarrow> dtb_state option" where
  "check_for_special_prop m st node prop =
     (let name0 = cstr_byte m (p_name (prop_buff st prop)) 0
      in if name0 \<noteq> of_char CHR ''#'' \<or> name0 \<noteq> of_char CHR ''p'' \<or> name0 \<noteq> of_char CHR ''l''
         then Some st
         else
           (case string_len m (p_name (prop_buff st prop)) of
              None \<Rightarrow> None
            | Some name_len \<Rightarrow>
                if name_len = 7 \<and> strings_eq m (p_name (prop_buff st prop)) (CLit ''phandle'') name_len
                then store_handle m st node prop
                else if name_len = 13
                        \<and> strings_eq m (p_name (prop_buff st prop)) (CLit ''linux,phandle'') name_len
                then store_handle m st node prop
                else Some st))"

definition parse_prop :: "mem \<Rightarrow> dtb_state \<Rightarrow> nat \<Rightarrow> dtb_state \<times> nat option \<times> nat" where
  "parse_prop m st offset =
     (if be32 (cell m st offset) \<noteq> FDT_PROP then (st, None, offset)
      else
        let offset1 = offset + 1
        in (case alloc_prop st of
              (st1, None) \<Rightarrow> (LOG_ERROR st1 ''Property allocation failed'', None, offset1)
            | (st1, Some prop) \<Rightarrow>
                let fdtprop = cells st1 + 4 * offset1;
                    fdt_length = be32 (rd32 m fdtprop);
                    fdt_name_offset = be32 (rd32 m (fdtprop + 4));
                    st2 = prop_store st1 prop (\<lambda>p. p\<lparr>p_name := CPtr (strings st1 + unat fdt_name_offset)\<rparr>);
                    st3 = prop_store st2 prop (\<lambda>p. p\<lparr>p_first_cell := cells st1 + 4 * (offset1 + 2)\<rparr>);
                    st4 = prop_store st3 prop (\<lambda>p. p\<lparr>p_length := unat fdt_length\<rparr>)
                in (st4, Some prop, offset1 + (dtb_align_up (unat fdt_length) 4 div 4) + 2)))"

text \<open>
  \<^verbatim>\<open>parse_node\<close> up to its \<^verbatim>\<open>while\<close> loop: the token test, the allocation, the name and
  the advance past the name. The result is the state, the node (or \<^verbatim>\<open>NULL\<close> when
  \<^verbatim>\<open>parse_node\<close> has returned \<^verbatim>\<open>NULL\<close> already) and the offset.
\<close>

definition parse_node_begin :: "mem \<Rightarrow> dtb_state \<Rightarrow> nat \<Rightarrow> (dtb_state \<times> nat option \<times> nat) option" where
  "parse_node_begin m st offset =
     (if be32 (cell m st offset) \<noteq> FDT_BEGIN_NODE then Some (st, None, offset)
      else
        (case alloc_node st of
           (st1, None) \<Rightarrow> Some (LOG_ERROR st1 ''Node allocation failed'', None, offset)
         | (st1, Some node) \<Rightarrow>
             let st2 = node_store st1 node (\<lambda>n. n\<lparr>n_name := CPtr (cells st1 + 4 * (offset + 1))\<rparr>)
             in (case string_len m (n_name (node_buff st2 node)) of
                   None \<Rightarrow> None
                 | Some name_len \<Rightarrow>
                     let st3 = (if name_len = 0 then node_store st2 node (\<lambda>n. n\<lparr>n_name := CNull\<rparr>)
                                else st2)
                     in Some (st3, Some node,
                              offset + (dtb_align_up (name_len + 1) FDT_CELL_SIZE div FDT_CELL_SIZE) + 1))))"

text \<open>
  The stores by which the loop of \<^verbatim>\<open>parse_node\<close> prepends a parsed child,
  \<^verbatim>\<open>child->sibling = node->child; node->child = child; child->parent = node;\<close>, and a
  parsed property, \<^verbatim>\<open>prop->next = node->props; node->props = prop;\<close>.
\<close>

definition link_child :: "dtb_state \<Rightarrow> nat \<Rightarrow> nat \<Rightarrow> dtb_state" where
  "link_child st node child =
     (let st1 = node_store st child (\<lambda>n. n\<lparr>n_sibling := n_child (node_buff st node)\<rparr>);
          st2 = node_store st1 node (\<lambda>n. n\<lparr>n_child := Some child\<rparr>);
          st3 = node_store st2 child (\<lambda>n. n\<lparr>n_parent := Some node\<rparr>)
      in st3)"

definition link_prop :: "dtb_state \<Rightarrow> nat \<Rightarrow> nat \<Rightarrow> dtb_state" where
  "link_prop st node prop =
     (let st1 = prop_store st prop (\<lambda>p. p\<lparr>p_next := n_props (node_buff st node)\<rparr>);
          st2 = node_store st1 node (\<lambda>n. n\<lparr>n_props := Some prop\<rparr>)
      in st2)"

text \<open>
  The \<^verbatim>\<open>while\<close> loop of \<^verbatim>\<open>parse_node\<close> for the node \<open>node\<close>. In the branch of
  \<^verbatim>\<open>FDT_BEGIN_NODE\<close> the recursive call \<^verbatim>\<open>parse_node(offset)\<close> is written out as
  \<open>parse_node_begin\<close> followed by the loop of the child (\<open>parse_node_loop_child\<close> below
  states it with \<open>parse_node\<close>). The source's \<^verbatim>\<open>continue\<close> after a \<^verbatim>\<open>NULL\<close> child or
  property re-enters the loop at the offset the callee left.
\<close>

partial_function (option) parse_node_loop ::
  "mem \<Rightarrow> dtb_state \<Rightarrow> nat \<Rightarrow> nat \<Rightarrow> (dtb_state \<times> nat option \<times> nat) option" where
  "parse_node_loop m st node offset =
     (if offset < cell_count st then
        (if be32 (cell m st offset) = FDT_END_NODE then Some (st, Some node, offset + 1)
         else if be32 (cell m st offset) = FDT_BEGIN_NODE then
           (case parse_node_begin m st offset of
              None \<Rightarrow> None
            | Some (st1, None, offset1) \<Rightarrow> parse_node_loop m st1 node offset1
            | Some (st1, Some c, offset1) \<Rightarrow>
                Option.bind (parse_node_loop m st1 c offset1)
                  (\<lambda>(st2, r, offset2).
                     case r of
                       None \<Rightarrow> parse_node_loop m st2 node offset2
                     | Some child \<Rightarrow> parse_node_loop m (link_child st2 node child) node offset2))
         else if be32 (cell m st offset) = FDT_PROP then
           (case parse_prop m st offset of
              (st1, None, offset1) \<Rightarrow> parse_node_loop m st1 node offset1
            | (st1, Some prop, offset1) \<Rightarrow>
                (case check_for_special_prop m (link_prop st1 node prop) node prop of
                   None \<Rightarrow> None
                 | Some st2 \<Rightarrow> parse_node_loop m st2 node offset1))
         else parse_node_loop m st node (offset + 1))
      else Some (LOG_ERROR st ''Node is missing terminating tag.'', None, offset))"

definition parse_node :: "mem \<Rightarrow> dtb_state \<Rightarrow> nat \<Rightarrow> (dtb_state \<times> nat option \<times> nat) option" where
  "parse_node m st offset =
     (case parse_node_begin m st offset of
        None \<Rightarrow> None
      | Some (st1, None, offset1) \<Rightarrow> Some (st1, None, offset1)
      | Some (st1, Some node, offset1) \<Rightarrow> parse_node_loop m st1 node offset1)"

definition sanitise_config :: "dtb_config \<Rightarrow> dtb_config" where
  "sanitise_config config = (if config_ver config < 1 then config\<lparr>writable := False\<rparr> else config)"

text \<open>
  The \<^verbatim>\<open>for\<close> loop of \<^verbatim>\<open>dtb_init_with_config\<close>; \<^verbatim>\<open>parse_node(&i)\<close> moves the loop
  variable, and the loop's own \<^verbatim>\<open>i++\<close> follows every iteration.
\<close>

partial_function (option) dtb_init_with_config_loop :: "mem \<Rightarrow> dtb_state \<Rightarrow> nat \<Rightarrow> dtb_state option" where
  "dtb_init_with_config_loop m st i =
     (if i < cell_count st then
        (if be32 (cell m st i) \<noteq> FDT_BEGIN_NODE then dtb_init_with_config_loop m st (i + 1)
         else
           (case parse_node m st i of
              None \<Rightarrow> None
            | Some (st1, None, i1) \<Rightarrow> dtb_init_with_config_loop m st1 (i1 + 1)
            | Some (st1, Some sub_root, i1) \<Rightarrow>
                let st2 = node_store st1 sub_root (\<lambda>n. n\<lparr>n_sibling := root st1\<rparr>);
                    st3 = st2\<lparr>root := Some sub_root\<rparr>
                in dtb_init_with_config_loop m st3 (i1 + 1)))
      else Some st)"

text \<open>
  \<^verbatim>\<open>dtb_init_with_config(start, ops, config)\<close> on the global state \<open>st\<close>; the result is the
  returned flag and the new state. The header fields are read at their offsets in
  \<^verbatim>\<open>struct fdt_header\<close>: magic 0, \<^verbatim>\<open>offset_structs\<close> 8, \<^verbatim>\<open>offset_strings\<close> 12,
  \<^verbatim>\<open>size_structs\<close> 36.
\<close>

definition dtb_init_with_config ::
  "mem \<Rightarrow> dtb_state \<Rightarrow> nat \<Rightarrow> dtb_ops \<Rightarrow> dtb_config option \<Rightarrow> (bool \<times> dtb_state) option" where
  "dtb_init_with_config m st start ops' config =
     (let st0 = st\<lparr>ops := ops'\<rparr>
      in if config = None then Some (False, LOG_ERROR st0 ''Config argument cannot be null'')
         else if \<not> ops_malloc (ops st0) then Some (False, LOG_ERROR st0 ''ops.malloc() is NULL'')
         else if be32 (rd32 m start) \<noteq> FDT_MAGIC
         then Some (False, LOG_ERROR st0 ''FDT has incorrect magic number.'')
         else
           let st1 = st0\<lparr>cells := start + unat (be32 (rd32 m (start + 8)))\<rparr>;
               st2 = st1\<lparr>cell_count := unat (be32 (rd32 m (start + 36))) div 4\<rparr>;
               st3 = st2\<lparr>strings := start + unat (be32 (rd32 m (start + 12)))\<rparr>;
               st4 = (if node_buff_set st3 then free_buffers st3 else st3);
               st5 = alloc_buffers m st4
           in (case dtb_init_with_config_loop m st5 0 of
                 None \<Rightarrow> None
               | Some st6 \<Rightarrow> Some (True, st6)))"

definition dtb_init :: "mem \<Rightarrow> dtb_state \<Rightarrow> nat \<Rightarrow> dtb_ops \<Rightarrow> (bool \<times> dtb_state) option" where
  "dtb_init m st start ops' =
     (let dummy_conf = \<lparr>config_ver = 0, writable = False\<rparr>
      in dtb_init_with_config m st start ops' (Some dummy_conf))"

text \<open>The global \<^verbatim>\<open>state\<close> of a freshly loaded program: all zeroes.\<close>

definition initial_state :: dtb_state where
  "initial_state =
     \<lparr>cells = 0, strings = 0, cell_count = 0, root = None, handle_lookup = (\<lambda>i. None),
      node_buff = (\<lambda>i. zero_node), node_buff_set = False, node_alloc_head = 0, node_alloc_max = 0,
      prop_buff = (\<lambda>i. zero_prop), prop_alloc_head = 0, prop_alloc_max = 0,
      ops = \<lparr>ops_malloc = False, ops_free = False, ops_on_error = False\<rparr>, errors = []\<rparr>"

subsection \<open>Queries\<close>

partial_function (option) dtb_find_prop_loop ::
  "mem \<Rightarrow> dtb_state \<Rightarrow> cstr \<Rightarrow> nat \<Rightarrow> nat option \<Rightarrow> nat option option" where
  "dtb_find_prop_loop m st name name_len prop =
     (case prop of
        None \<Rightarrow> Some None
      | Some p \<Rightarrow>
          (case string_len m (p_name (prop_buff st p)) of
             None \<Rightarrow> None
           | Some prop_name_len \<Rightarrow>
               if prop_name_len = name_len \<and> strings_eq m (p_name (prop_buff st p)) name prop_name_len
               then Some (Some p)
               else dtb_find_prop_loop m st name name_len (p_next (prop_buff st p))))"

text \<open>
  \<^verbatim>\<open>dtb_find_prop\<close>: the outer option is \<open>None\<close> when the call does not return, the inner
  one is the returned pointer.
\<close>

definition dtb_find_prop :: "mem \<Rightarrow> dtb_state \<Rightarrow> nat option \<Rightarrow> cstr \<Rightarrow> nat option option" where
  "dtb_find_prop m st node name =
     (case node of
        None \<Rightarrow> Some None
      | Some n \<Rightarrow>
          (case string_len m name of
             None \<Rightarrow> None
           | Some name_len \<Rightarrow> dtb_find_prop_loop m st name name_len (n_props (node_buff st n))))"

text \<open>
  The inner loop of \<^verbatim>\<open>dtb_find_compatible\<close> over the strings of one \<^verbatim>\<open>compatible\<close>
  property: \<open>Some True\<close> when it returns the node, \<open>Some False\<close> when it breaks.
\<close>

partial_function (option) dtb_find_compatible_strings ::
  "mem \<Rightarrow> dtb_state \<Rightarrow> nat \<Rightarrow> cstr \<Rightarrow> nat \<Rightarrow> nat \<Rightarrow> bool option" where
  "dtb_find_compatible_strings m st compat_prop str compatstr_len ci =
     (let compat_str = dtb_read_prop_string m st (Some compat_prop) ci
      in if compat_str = CNull then Some False
         else if strings_eq m compat_str str compatstr_len then Some True
         else dtb_find_compatible_strings m st compat_prop str compatstr_len (ci + 1))"

partial_function (option) dtb_find_compatible_loop ::
  "mem \<Rightarrow> dtb_state \<Rightarrow> cstr \<Rightarrow> nat \<Rightarrow> nat \<Rightarrow> nat option option" where
  "dtb_find_compatible_loop m st str compatstr_len i =
     (if i < node_alloc_head st then
        (case dtb_find_prop m st (Some i) (CLit ''compatible'') of
           None \<Rightarrow> None
         | Some None \<Rightarrow> dtb_find_compatible_loop m st str compatstr_len (i + 1)
         | Some (Some compat_prop) \<Rightarrow>
             (case dtb_find_compatible_strings m st compat_prop str compatstr_len 0 of
                None \<Rightarrow> None
              | Some found \<Rightarrow>
                  if found then Some (Some i)
                  else dtb_find_compatible_loop m st str compatstr_len (i + 1)))
      else Some None)"

text \<open>
  \<^verbatim>\<open>dtb_find_compatible\<close>. A pointer to the node in slot \<open>n\<close> lies \<open>n * sizeof(dtb_node)\<close>
  bytes after \<^verbatim>\<open>state.node_buff\<close>, so the index computed from it is \<open>n\<close>.
\<close>

definition dtb_find_compatible :: "mem \<Rightarrow> dtb_state \<Rightarrow> nat option \<Rightarrow> cstr \<Rightarrow> nat option option" where
  "dtb_find_compatible m st start str =
     (let begin_index = (case start of None \<Rightarrow> 0 | Some n \<Rightarrow> n + 1)
      in case string_len m str of
           None \<Rightarrow> None
         | Some compatstr_len \<Rightarrow> dtb_find_compatible_loop m st str compatstr_len begin_index)"

definition dtb_find_phandle :: "dtb_state \<Rightarrow> 32 word \<Rightarrow> nat option" where
  "dtb_find_phandle st handle =
     (if unat handle < node_alloc_max st then handle_lookup st (unat handle) else None)"

definition dtb_get_sibling :: "dtb_state \<Rightarrow> nat option \<Rightarrow> nat option" where
  "dtb_get_sibling st node =
     (if node = None \<or> n_sibling (node_buff st (the node)) = None then None
      else n_sibling (node_buff st (the node)))"

definition dtb_get_child :: "dtb_state \<Rightarrow> nat option \<Rightarrow> nat option" where
  "dtb_get_child st node = (if node = None then None else n_child (node_buff st (the node)))"

definition dtb_get_parent :: "dtb_state \<Rightarrow> nat option \<Rightarrow> nat option" where
  "dtb_get_parent st node = (if node = None then None else n_parent (node_buff st (the node)))"

fun dtb_get_prop_loop :: "dtb_state \<Rightarrow> nat option \<Rightarrow> nat \<Rightarrow> nat option" where
  "dtb_get_prop_loop st None index = None"
| "dtb_get_prop_loop st (Some p) 0 = Some p"
| "dtb_get_prop_loop st (Some p) (Suc index) = dtb_get_prop_loop st (p_next (prop_buff st p)) index"

definition dtb_get_prop :: "dtb_state \<Rightarrow> nat option \<Rightarrow> nat \<Rightarrow> nat option" where
  "dtb_get_prop st node index =
     (if node = None then None else dtb_get_prop_loop st (n_props (node_buff st (the node))) index)"

text \<open>The three counting loops of \<^verbatim>\<open>dtb_stat_node\<close>.\<close>

partial_function (option) count_props :: "dtb_state \<Rightarrow> nat option \<Rightarrow> nat \<Rightarrow> nat option" where
  "count_props st prop count =
     (case prop of
        None \<Rightarrow> Some count
      | Some p \<Rightarrow> count_props st (p_next (prop_buff st p)) (count + 1))"

partial_function (option) count_siblings :: "dtb_state \<Rightarrow> nat option \<Rightarrow> nat \<Rightarrow> nat option" where
  "count_siblings st node count =
     (case node of
        None \<Rightarrow> Some count
      | Some n \<Rightarrow> count_siblings st (n_sibling (node_buff st n)) (count + 1))"

text \<open>
  \<^verbatim>\<open>dtb_stat_node(node, stat)\<close>: the result is the returned flag and the contents of
  \<^verbatim>\<open>*stat\<close> after the call, \<open>stat\<close> being its contents before.
\<close>

definition dtb_stat_node ::
  "dtb_state \<Rightarrow> nat option \<Rightarrow> dtb_node_stat \<Rightarrow> (bool \<times> dtb_node_stat) option" where
  "dtb_stat_node st node stat =
     (case node of
        None \<Rightarrow> Some (False, stat)
      | Some n \<Rightarrow>
          let stat1 = stat\<lparr>stat_name := n_name (node_buff st n)\<rparr>;
              stat2 = (if node = root st then stat1\<lparr>stat_name := CLit ROOT_NODE_STR\<rparr> else stat1)
          in (case count_props st (n_props (node_buff st n)) 0 of
                None \<Rightarrow> None
              | Some pc \<Rightarrow>
                  (case count_siblings st (n_child (node_buff st n)) 0 of
                     None \<Rightarrow> None
                   | Some cc \<Rightarrow>
                       (case (case n_parent (node_buff st n) of
                                None \<Rightarrow> Some 0
                              | Some par \<Rightarrow> count_siblings st (n_child (node_buff st par)) 0) of
                          None \<Rightarrow> None
                        | Some sc \<Rightarrow>
                            Some (True, stat2\<lparr>stat_prop_count := pc, stat_child_count := cc,
                                               stat_sibling_count := sc\<rparr>)))))"

subsection \<open>Serializer\<close>

text \<open>The source's own \<^verbatim>\<open>memcpy\<close>: a byte loop from \<open>src\<close> to the address \<open>dest\<close>.\<close>

function memcpy_loop :: "mem \<Rightarrow> nat \<Rightarrow> cstr \<Rightarrow> nat \<Rightarrow> nat \<Rightarrow> mem" where
  "memcpy_loop m dest src count i =
     (if i < count then memcpy_loop (m(dest + i := cstr_byte m src i)) dest src count (i + 1)
      else m)"
  by pat_completeness auto
termination
  by (relation "measure (\<lambda>(m, dest, src, count, i). count - i)") auto

declare memcpy_loop.simps [simp del]

definition memcpy :: "mem \<Rightarrow> nat \<Rightarrow> cstr \<Rightarrow> nat \<Rightarrow> mem" where
  "memcpy m dest src count = memcpy_loop m dest src count 0"

definition wr64 :: "mem \<Rightarrow> nat \<Rightarrow> 64 word \<Rightarrow> mem" where
  "wr64 m a w = m(a := ucast w, a + 1 := ucast (drop_bit 8 w),
                  a + 2 := ucast (drop_bit 16 w), a + 3 := ucast (drop_bit 24 w),
                  a + 4 := ucast (drop_bit 32 w), a + 5 := ucast (drop_bit 40 w),
                  a + 6 := ucast (drop_bit 48 w), a + 7 := ucast (drop_bit 56 w))"

text \<open>
  \<^verbatim>\<open>struct finalise_data\<close>. \<open>struct_buf\<close> and \<open>string_buf\<close> are addresses;
  \<open>struct_ptr\<close> and \<open>struct_buf_size\<close> count cells, \<open>string_ptr\<close> and
  \<open>string_buf_size\<close> count bytes.
\<close>

record finalise_data =
  struct_buf :: nat
  string_buf :: nat
  struct_ptr :: nat
  string_ptr :: nat
  struct_buf_size :: nat
  string_buf_size :: nat
  print_success :: bool

text \<open>
  \<^verbatim>\<open>do_foreach_prop\<close>, for an action that threads a value \<open>opaque\<close> of any type (what
  the \<^verbatim>\<open>void*\<close> points to). The action is never \<^verbatim>\<open>NULL\<close> in the source's calls.
\<close>

partial_function (option) do_foreach_prop_loop ::
  "(nat option \<Rightarrow> nat option \<Rightarrow> 'a \<Rightarrow> (int \<times> 'a) option) \<Rightarrow> dtb_state \<Rightarrow> nat option
     \<Rightarrow> nat option \<Rightarrow> 'a \<Rightarrow> 'a option" where
  "do_foreach_prop_loop action st node prop opaque =
     (case prop of
        None \<Rightarrow> Some opaque
      | Some p \<Rightarrow>
          Option.bind (action node (Some p) opaque)
            (\<lambda>(r, opaque1).
               if r = SMOLDTB_FOREACH_ABORT then Some opaque1
               else do_foreach_prop_loop action st node (p_next (prop_buff st p)) opaque1))"

definition do_foreach_prop ::
  "dtb_state \<Rightarrow> nat option \<Rightarrow> (nat option \<Rightarrow> nat option \<Rightarrow> 'a \<Rightarrow> (int \<times> 'a) option) \<Rightarrow> 'a \<Rightarrow> 'a option" where
  "do_foreach_prop st node action opaque =
     (if node = None then Some opaque
      else if n_props (node_buff st (the node)) = None then Some opaque
      else do_foreach_prop_loop action st node (n_props (node_buff st (the node))) opaque)"

definition init_finalise_data_prop ::
  "mem \<Rightarrow> dtb_state \<Rightarrow> nat option \<Rightarrow> nat option \<Rightarrow> finalise_data \<Rightarrow> (int \<times> finalise_data) option" where
  "init_finalise_data_prop m st node prop data =
     (if node = None \<or> prop = None then Some (SMOLDTB_FOREACH_CONTINUE, data)
      else
        let data1 = data\<lparr>struct_buf_size := struct_buf_size data + 3\<rparr>;
            data2 = data1\<lparr>struct_buf_size := struct_buf_size data1
                      + dtb_align_up (p_length (prop_buff st (the prop))) FDT_CELL_SIZE div FDT_CELL_SIZE\<rparr>
        in (case string_len m (p_name (prop_buff st (the prop))) of
              None \<Rightarrow> None
            | Some name_len \<Rightarrow>
                Some (SMOLDTB_FOREACH_CONTINUE,
                      data2\<lparr>string_buf_size := string_buf_size data2 + name_len + 1\<rparr>)))"

text \<open>
  \<^verbatim>\<open>do_foreach_sibling(begin, init_finalise_data, opaque)\<close>. The source's recursion
  \<^verbatim>\<open>init_finalise_data\<close> \<open>\<rightarrow>\<close> \<^verbatim>\<open>do_foreach_sibling\<close> \<open>\<rightarrow>\<close> \<^verbatim>\<open>init_finalise_data\<close> is one
  recursive function here: the body of \<^verbatim>\<open>init_finalise_data\<close> stands inside the loop over
  the siblings. \<^verbatim>\<open>init_finalise_data\<close> always returns \<^verbatim>\<open>SMOLDTB_FOREACH_CONTINUE\<close>.
\<close>

partial_function (option) do_foreach_sibling_init_finalise_data ::
  "mem \<Rightarrow> dtb_state \<Rightarrow> nat option \<Rightarrow> finalise_data \<Rightarrow> finalise_data option" where
  "do_foreach_sibling_init_finalise_data m st node data =
     (case node of
        None \<Rightarrow> Some data
      | Some n \<Rightarrow>
          (case string_len m (n_name (node_buff st n)) of
             None \<Rightarrow> None
           | Some name_len \<Rightarrow>
               let data1 = data\<lparr>struct_buf_size := struct_buf_size data + 2\<rparr>;
                   data2 = data1\<lparr>struct_buf_size := struct_buf_size data1
                             + dtb_align_up (name_len + 1) FDT_CELL_SIZE div FDT_CELL_SIZE\<rparr>
               in Option.bind (do_foreach_prop st (Some n) (init_finalise_data_prop m st) data2)
                    (\<lambda>data3.
                       Option.bind
                         (do_foreach_sibling_init_finalise_data m st (n_child (node_buff st n)) data3)
                         (\<lambda>data4.
                            do_foreach_sibling_init_finalise_data m st (n_sibling (node_buff st n)) data4))))"

text \<open>The copy loop of \<^verbatim>\<open>print_prop\<close>: payload cells are copied as the host loads them.\<close>

function print_prop_cells :: "mem \<Rightarrow> finalise_data \<Rightarrow> nat \<Rightarrow> nat \<Rightarrow> nat \<Rightarrow> mem \<times> finalise_data" where
  "print_prop_cells m data first_cell data_cells i =
     (if i < data_cells then
        print_prop_cells (wr32 m (struct_buf data + 4 * struct_ptr data) (rd32 m (first_cell + 4 * i)))
          (data\<lparr>struct_ptr := struct_ptr data + 1\<rparr>) first_cell data_cells (i + 1)
      else (m, data))"
  by pat_completeness auto
termination
  by (relation "measure (\<lambda>(m, data, first_cell, data_cells, i). data_cells - i)") auto

declare print_prop_cells.simps [simp del]

text \<open>
  \<^verbatim>\<open>print_prop\<close> and \<^verbatim>\<open>print_node\<close> write to memory and to \<^verbatim>\<open>*data\<close>: they thread
  the pair of both.
\<close>

definition print_prop ::
  "dtb_state \<Rightarrow> nat option \<Rightarrow> nat option \<Rightarrow> mem \<times> finalise_data \<Rightarrow> (int \<times> mem \<times> finalise_data) option" where
  "print_prop st node prop md =
     (case md of (m, data) \<Rightarrow>
        let name_offset = (word_of_nat (string_ptr data) :: 32 word)
        in (case string_len m (p_name (prop_buff st (the prop))) of
              None \<Rightarrow> None
            | Some name_len \<Rightarrow>
                if string_ptr data + name_len + 1 > string_buf_size data
                then Some (SMOLDTB_FOREACH_ABORT, m, data\<lparr>print_success := False\<rparr>)
                else
                  let m1 = memcpy m (string_buf data + string_ptr data) (p_name (prop_buff st (the prop))) name_len;
                      m2 = m1(string_buf data + (string_ptr data + name_len) := 0);
                      data1 = data\<lparr>string_ptr := string_ptr data + (name_len + 1)\<rparr>;
                      data_cells = dtb_align_up (p_length (prop_buff st (the prop))) FDT_CELL_SIZE div FDT_CELL_SIZE
                  in if struct_ptr data1 + 3 + data_cells > struct_buf_size data1
                     then Some (SMOLDTB_FOREACH_ABORT, m2, data1\<lparr>print_success := False\<rparr>)
                     else
                       let m3 = wr32 m2 (struct_buf data1 + 4 * struct_ptr data1) (be32 FDT_PROP);
                           data2 = data1\<lparr>struct_ptr := struct_ptr data1 + 1\<rparr>;
                           m4 = wr32 m3 (struct_buf data2 + 4 * struct_ptr data2)
                                  (be32 (word_of_nat (p_length (prop_buff st (the prop)))));
                           data3 = data2\<lparr>struct_ptr := struct_ptr data2 + 1\<rparr>;
                           m5 = wr32 m4 (struct_buf data3 + 4 * struct_ptr data3) (be32 name_offset);
                           data4 = data3\<lparr>struct_ptr := struct_ptr data3 + 1\<rparr>
                       in (case print_prop_cells m5 data4 (p_first_cell (prop_buff st (the prop))) data_cells 0 of
                             (m6, data5) \<Rightarrow> Some (SMOLDTB_FOREACH_CONTINUE, m6, data5))))"

text \<open>
  \<^verbatim>\<open>do_foreach_sibling(begin, print_node, opaque)\<close>, with the body of \<^verbatim>\<open>print_node\<close> inside
  the loop over the siblings, as for the sizing pass. Where \<^verbatim>\<open>print_node\<close> returns
  \<^verbatim>\<open>SMOLDTB_FOREACH_ABORT\<close> the loop returns at once.
\<close>

partial_function (option) do_foreach_sibling_print_node ::
  "dtb_state \<Rightarrow> nat option \<Rightarrow> mem \<times> finalise_data \<Rightarrow> (mem \<times> finalise_data) option" where
  "do_foreach_sibling_print_node st node md =
     (case node of
        None \<Rightarrow> Some md
      | Some n \<Rightarrow>
          (case md of (m, data) \<Rightarrow>
             (case string_len m (n_name (node_buff st n)) of
                None \<Rightarrow> None
              | Some name_len \<Rightarrow>
                  let name_cells = dtb_align_up (name_len + 1) FDT_CELL_SIZE div FDT_CELL_SIZE
                  in if struct_ptr data + 1 + name_cells > struct_buf_size data
                     then Some (m, data\<lparr>print_success := False\<rparr>)
                     else
                       let m1 = wr32 m (struct_buf data + 4 * struct_ptr data) (be32 FDT_BEGIN_NODE);
                           data1 = data\<lparr>struct_ptr := struct_ptr data + 1\<rparr>;
                           name_buf = struct_buf data1 + 4 * struct_ptr data1;
                           m2 = memcpy m1 name_buf (n_name (node_buff st n)) name_len;
                           m3 = m2(name_buf + name_len := 0);
                           data2 = data1\<lparr>struct_ptr := struct_ptr data1 + name_cells\<rparr>
                       in Option.bind (do_foreach_prop st (Some n) (print_prop st) (m3, data2))
                            (\<lambda>(m4, data3).
                               if \<not> print_success data3 then Some (m4, data3)
                               else
                                 Option.bind
                                   (do_foreach_sibling_print_node st (n_child (node_buff st n)) (m4, data3))
                                   (\<lambda>(m5, data4).
                                      if \<not> print_success data4 then Some (m5, data4)
                                      else if struct_ptr data4 + 1 > struct_buf_size data4
                                      then Some (m5, data4\<lparr>print_success := False\<rparr>)
                                      else
                                        let m6 = wr32 m5 (struct_buf data4 + 4 * struct_ptr data4)
                                                   (be32 FDT_END_NODE);
                                            data5 = data4\<lparr>struct_ptr := struct_ptr data4 + 1\<rparr>
                                        in do_foreach_sibling_print_node st
                                             (n_sibling (node_buff st n)) (m6, data5))))))"

text \<open>
  Modelled from the spec: \<^verbatim>\<open>SMOLDTB_FINALISE_FAILURE\<close> is defined in the missing header;
  the spec calls it a sentinel failure value. The result of \<^verbatim>\<open>dtb_finalise_to_buffer\<close> is a
  byte count or that sentinel.
\<close>

datatype finalise_result = Bytes nat | SMOLDTB_FINALISE_FAILURE

text \<open>
  \<^verbatim>\<open>dtb_finalise_to_buffer(buffer, buffer_size, boot_cpu_id)\<close>: the result is the returned
  value and the memory after the call. \<open>buffer\<close> is \<open>None\<close> for \<^verbatim>\<open>NULL\<close>.
  \<^verbatim>\<open>sizeof(struct fdt_header)\<close> is 40. The fields of \<^verbatim>\<open>final_data\<close> that the source leaves
  uninitialised before the sizing pass, which does not read them, start as 0 and \<open>False\<close>.
\<close>

definition dtb_finalise_to_buffer ::
  "mem \<Rightarrow> dtb_state \<Rightarrow> nat option \<Rightarrow> nat \<Rightarrow> 32 word \<Rightarrow> (finalise_result \<times> mem) option" where
  "dtb_finalise_to_buffer m st buffer buffer_size boot_cpu_id =
     (let final_data = \<lparr>struct_buf = 0, string_buf = 0, struct_ptr = 0, string_ptr = 0,
                         struct_buf_size = 0, string_buf_size = 1, print_success = False\<rparr>
      in Option.bind (do_foreach_sibling_init_finalise_data m st (root st) final_data)
           (\<lambda>final_data1.
              let reserved_block_size = 2 * 8;
                  struct_buf_bytes = struct_buf_size final_data1 * FDT_CELL_SIZE;
                  total_bytes = string_buf_size final_data1 + struct_buf_bytes + 40 + reserved_block_size
              in if buffer = None \<or> total_bytes < buffer_size then Some (Bytes total_bytes, m)
                 else if (the buffer) AND 3 \<noteq> 0 then Some (Bytes total_bytes, m)
                 else
                   let header = the buffer;
                       m1 = wr32 m header (be32 FDT_MAGIC);
                       m2 = wr32 m1 (header + 4) (be32 (word_of_nat total_bytes));
                       m3 = wr32 m2 (header + 8) (be32 (word_of_nat (40 + 16)));
                       m4 = wr32 m3 (header + 12)
                              (be32 (word_of_nat (unat (be32 (rd32 m3 (header + 8))) + struct_buf_bytes)));
                       m5 = wr32 m4 (header + 16) (be32 (word_of_nat 40));
                       m6 = wr32 m5 (header + 20) (be32 FDT_VERSION);
                       m7 = wr32 m6 (header + 24) (be32 16);
                       m8 = wr32 m7 (header + 28) (be32 boot_cpu_id);
                       m9 = wr32 m8 (header + 32) (be32 (word_of_nat (string_buf_size final_data1)));
                       m10 = wr32 m9 (header + 36) (be32 (word_of_nat struct_buf_bytes));
                       reserved_block = header + 40;
                       m11 = wr64 m10 reserved_block 0;
                       m12 = wr64 m11 (reserved_block + 8) 0;
                       final_data2 = final_data1\<lparr>struct_buf := header + unat (be32 (rd32 m12 (header + 8)))\<rparr>;
                       final_data3 = final_data2\<lparr>string_buf := header + unat (be32 (rd32 m12 (header + 12)))\<rparr>;
                       final_data4 = final_data3\<lparr>struct_ptr := 0\<rparr>;
                       final_data5 = final_data4\<lparr>string_ptr := 1\<rparr>;
                       m13 = m12(string_buf final_data5 := 0);
                       final_data6 = final_data5\<lparr>print_success := True\<rparr>
                   in Option.bind (do_foreach_sibling_print_node st (root st) (m13, final_data6))
                        (\<lambda>(m14, final_data7).
                           Some (if print_success final_data7 then Bytes total_bytes
                                 else SMOLDTB_FINALISE_FAILURE, m14))))"

subsection \<open>Sibling lists and blob order\<close>





subsection \<open>Example blobs\<close>

text \<open>A memory that holds the bytes \<open>bs\<close> from the address \<open>base\<close> on and zeroes elsewhere.\<close>

definition mem_of :: "nat \<Rightarrow> 8 word list \<Rightarrow> mem" where
  "mem_of base bs = (\<lambda>a. if base \<le> a \<and> a < base + length bs then bs ! (a - base) else 0)"

definition host_ops :: dtb_ops where
  "host_ops = \<lparr>ops_malloc = True, ops_free = True, ops_on_error = True\<rparr>"

text \<open>
  Each blob is a 40-byte header, the 16-byte empty reservation block, the structure
  block (from byte 56 on) and the strings block, four bytes to a group.

  \<open>blob_min\<close>: \<^verbatim>\<open>/ { };\<close>, the structure block
  \<^verbatim>\<open>BEGIN_NODE "" END_NODE END\<close> and an empty strings block.
\<close>

definition blob_min :: "8 word list" where
  "blob_min =
     [208, 13, 254, 237,  0, 0, 0, 72,  0, 0, 0, 56,  0, 0, 0, 72,  0, 0, 0, 40,  0, 0, 0, 17,
      0, 0, 0, 16,  0, 0, 0, 0,  0, 0, 0, 0,  0, 0, 0, 16,  0, 0, 0, 0,  0, 0, 0, 0,
      0, 0, 0, 0,  0, 0, 0, 0,  0, 0, 0, 1,  0, 0, 0, 0,  0, 0, 0, 2,  0, 0, 0, 9]"

definition mem_min :: mem where
  "mem_min = mem_of 0 blob_min"

text \<open>
  \<open>blob_dev\<close>: \<^verbatim>\<open>/ { compatible = "ab"; phandle = <1>; };\<close> with the strings block
  \<^verbatim>\<open>"compatible\0phandle\0"\<close>. The payload of \<^verbatim>\<open>compatible\<close> is at byte 76, that of
  \<^verbatim>\<open>phandle\<close> at byte 92.
\<close>

definition blob_dev :: "8 word list" where
  "blob_dev =
     [208, 13, 254, 237,  0, 0, 0, 123,  0, 0, 0, 56,  0, 0, 0, 104,  0, 0, 0, 40,  0, 0, 0, 17,
      0, 0, 0, 16,  0, 0, 0, 0,  0, 0, 0, 19,  0, 0, 0, 48,  0, 0, 0, 0,  0, 0, 0, 0,
      0, 0, 0, 0,  0, 0, 0, 0,  0, 0, 0, 1,  0, 0, 0, 0,  0, 0, 0, 3,  0, 0, 0, 3,
      0, 0, 0, 0,  97, 98, 0, 0,  0, 0, 0, 3,  0, 0, 0, 4,  0, 0, 0, 11,  0, 0, 0, 1,
      0, 0, 0, 2,  0, 0, 0, 9,  99, 111, 109, 112,  97, 116, 105, 98,  108, 101, 0, 112,  104, 97, 110, 100,
      108, 101, 0]"

definition mem_dev :: mem where
  "mem_dev = mem_of 0 blob_dev"

text \<open>
  \<open>blob_rt\<close>: \<^verbatim>\<open>/ { ab = <1>; xy; };\<close> with the strings block \<^verbatim>\<open>"ab\0xy\0"\<close>.
\<close>

definition blob_rt :: "8 word list" where
  "blob_rt =
     [208, 13, 254, 237,  0, 0, 0, 106,  0, 0, 0, 56,  0, 0, 0, 100,  0, 0, 0, 40,  0, 0, 0, 17,
      0, 0, 0, 16,  0, 0, 0, 0,  0, 0, 0, 6,  0, 0, 0, 44,  0, 0, 0, 0,  0, 0, 0, 0,
      0, 0, 0, 0,  0, 0, 0, 0,  0, 0, 0, 1,  0, 0, 0, 0,  0, 0, 0, 3,  0, 0, 0, 4,
      0, 0, 0, 0,  0, 0, 0, 1,  0, 0, 0, 3,  0, 0, 0, 0,  0, 0, 0, 3,  0, 0, 0, 2,
      0, 0, 0, 9,  97, 98, 0, 120,  121, 0]"

definition mem_rt :: mem where
  "mem_rt = mem_of 0 blob_rt"

text \<open>
  The memory after \<^verbatim>\<open>dtb_finalise_to_buffer\<close> has serialized the tree of \<open>blob_rt\<close> into
  a buffer at address 256, write by write in the order of the source: the header, the
  reservation block, the empty string at offset 0 of the strings block (address 352),
  the root with its empty name, the property \<^verbatim>\<open>xy\<close> and the property \<^verbatim>\<open>ab\<close> (the
  property list holds them in this order), each with its name copied to the strings
  block first, and the \<^verbatim>\<open>FDT_END_NODE\<close> token.
\<close>

definition mem_rt_out :: mem where
  "mem_rt_out =
     (let m = wr32 mem_rt 256 (be32 FDT_MAGIC);
          m = wr32 m 260 (be32 103);
          m = wr32 m 264 (be32 56);
          m = wr32 m 268 (be32 96);
          m = wr32 m 272 (be32 40);
          m = wr32 m 276 (be32 FDT_VERSION);
          m = wr32 m 280 (be32 16);
          m = wr32 m 284 (be32 0);
          m = wr32 m 288 (be32 7);
          m = wr32 m 292 (be32 40);
          m = wr64 m 296 0;
          m = wr64 m 304 0;
          m = m(352 := 0);
          m = wr32 m 312 (be32 FDT_BEGIN_NODE);
          m = m(316 := 0);
          m = m(353 := 120, 354 := 121, 355 := 0);
          m = wr32 m 320 (be32 FDT_PROP);
          m = wr32 m 324 (be32 0);
          m = wr32 m 328 (be32 1);
          m = m(356 := 97, 357 := 98, 358 := 0);
          m = wr32 m 332 (be32 FDT_PROP);
          m = wr32 m 336 (be32 4);
          m = wr32 m 340 (be32 4);
          m = wr32 m 344 (rd32 mem_rt 76);
          m = wr32 m 348 (be32 FDT_END_NODE)
      in m)"

text \<open>
  \<open>blob_tree\<close>: \<^verbatim>\<open>/ { p = <1 3>; a { }; b { }; };\<close> with the strings block \<^verbatim>\<open>"p\0"\<close>. The
  \<^verbatim>\<open>FDT_BEGIN_NODE\<close> token of \<^verbatim>\<open>a\<close> is cell 7 of the structure block, that of \<^verbatim>\<open>b\<close>
  cell 10.
\<close>

definition blob_tree :: "8 word list" where
  "blob_tree =
     [208, 13, 254, 237,  0, 0, 0, 118,  0, 0, 0, 56,  0, 0, 0, 116,  0, 0, 0, 40,  0, 0, 0, 17,
      0, 0, 0, 16,  0, 0, 0, 0,  0, 0, 0, 2,  0, 0, 0, 60,  0, 0, 0, 0,  0, 0, 0, 0,
      0, 0, 0, 0,  0, 0, 0, 0,  0, 0, 0, 1,  0, 0, 0, 0,  0, 0, 0, 3,  0, 0, 0, 8,
      0, 0, 0, 0,  0, 0, 0, 1,  0, 0, 0, 3,  0, 0, 0, 1,  97, 0, 0, 0,  0, 0, 0, 2,
      0, 0, 0, 1,  98, 0, 0, 0,  0, 0, 0, 2,  0, 0, 0, 2,  0, 0, 0, 9,  112, 0]"

definition mem_tree :: mem where
  "mem_tree = mem_of 0 blob_tree"


text \<open>
  A property descriptor on its own, at address 0: the \<^verbatim>\<open>FDT_PROP\<close> token, the length 8,
  the name offset 0 and the payload \<^verbatim>\<open>00 00 00 01 00 00 00 02\<close>; and a state whose
  structure block starts there, with room for one property.
\<close>

definition mem_reg :: mem where
  "mem_reg = mem_of 0 [0, 0, 0, 3,  0, 0, 0, 8,  0, 0, 0, 0,  0, 0, 0, 1,  0, 0, 0, 2]"

definition state_reg :: dtb_state where
  "state_reg = initial_state\<lparr>cell_count := 5, prop_alloc_max := 2\<rparr>"

text \<open>Three cells \<^verbatim>\<open>00 00 00 01\<close>, \<^verbatim>\<open>00 00 00 00\<close>, \<^verbatim>\<open>00 00 00 00\<close> at address 0.\<close>

definition mem_three :: mem where
  "mem_three = mem_of 0 [0, 0, 0, 1,  0, 0, 0, 0,  0, 0, 0, 0]"

section \<open>Properties\<close>

subsection \<open>Byte order and memory\<close>

lemma m8: "(0xFF :: 32 word) = mask 8" "(0xFF00 :: 32 word) = push_bit 8 (mask 8)"
  "(0xFF0000 :: 32 word) = push_bit 16 (mask 8)" "(0xFF000000 :: 32 word) = push_bit 24 (mask 8)"
  by (simp_all add: mask_eq_exp_minus_1)

lemma be32_bit: "bit (be32 w) n \<longleftrightarrow>
   (n < 8 \<and> bit w (n + 24)) \<or> (8 \<le> n \<and> n < 16 \<and> bit w (n + 8))
   \<or> (16 \<le> n \<and> n < 24 \<and> bit w (n - 8)) \<or> (24 \<le> n \<and> n < 32 \<and> bit w (n - 24))"
proof -
  consider "n < 8" | "8 \<le> n \<and> n < 16" | "16 \<le> n \<and> n < 24" | "24 \<le> n \<and> n < 32" | "32 \<le> n"
    by linarith
  then show ?thesis
    by cases (auto simp add: be32_def Let_def m8 bit_simps add.commute dest: bit_imp_le_length)
qed

lemma be32_be32: "be32 (be32 w) = w"
proof (rule bit_word_eqI)
  fix n assume n: "n < LENGTH(32)"
  then have "n < 8 \<or> (8 \<le> n \<and> n < 16) \<or> (16 \<le> n \<and> n < 24) \<or> (24 \<le> n \<and> n < 32)"
    by auto
  then show "bit (be32 (be32 w)) n = bit w n"
    by (elim disjE) (auto simp add: be32_bit)
qed

lemma rd32_bit: "bit (rd32 m a) n \<longleftrightarrow>
   (n < 8 \<and> bit (m a) n) \<or> (8 \<le> n \<and> n < 16 \<and> bit (m (a + 1)) (n - 8))
   \<or> (16 \<le> n \<and> n < 24 \<and> bit (m (a + 2)) (n - 16)) \<or> (24 \<le> n \<and> n < 32 \<and> bit (m (a + 3)) (n - 24))"
  unfolding rd32_def
  by (auto simp add: bit_simps dest: bit_imp_le_length)

lemma rd32_wr32_same: "rd32 (wr32 m a w) a = w"
proof (rule bit_word_eqI)
  fix n assume n: "n < LENGTH(32)"
  then have "n < 8 \<or> (8 \<le> n \<and> n < 16) \<or> (16 \<le> n \<and> n < 24) \<or> (24 \<le> n \<and> n < 32)"
    by auto
  then show "bit (rd32 (wr32 m a w) a) n = bit w n"
    by (elim disjE) (auto simp add: rd32_bit wr32_def bit_simps)
qed

lemma wr32_other: "b < a \<or> a + 4 \<le> b \<Longrightarrow> wr32 m a w b = m b"
  by (auto simp add: wr32_def)

lemma rd32_wr32_other: "b + 4 \<le> a \<or> a + 4 \<le> b \<Longrightarrow> rd32 (wr32 m a w) b = rd32 m b"
  by (auto simp add: rd32_def wr32_def)

lemma rd32_upd_other: "c < b \<or> b + 4 \<le> c \<Longrightarrow> rd32 (m(c := v)) b = rd32 m b"
  by (auto simp add: rd32_def)

lemma wr64_other: "b < a \<or> a + 8 \<le> b \<Longrightarrow> wr64 m a w b = m b"
  by (auto simp add: wr64_def)

lemma rd32_wr64_other: "b + 4 \<le> a \<or> a + 8 \<le> b \<Longrightarrow> rd32 (wr64 m a w) b = rd32 m b"
  by (auto simp add: rd32_def wr64_def)

lemma rd32_zero: "m a = 0 \<Longrightarrow> m (a + 1) = 0 \<Longrightarrow> m (a + 2) = 0 \<Longrightarrow> m (a + 3) = 0 \<Longrightarrow> rd32 m a = 0"
  by (simp add: rd32_def)

lemma be32_0: "be32 0 = 0"
  by (simp add: be32_def)

lemma wr32_be32_first: "wr32 m a (be32 w) a = ucast (drop_bit 24 w)"
  apply (simp add: wr32_def)
  apply (rule bit_word_eqI)
  apply (auto simp add: bit_simps be32_bit add.commute dest: bit_imp_le_length)
  done

subsection \<open>Null handles\<close>

text \<open>
  C10. Every read-only query and every decoder returns at once on a null handle:
  \<^verbatim>\<open>dtb_find_prop\<close>, \<^verbatim>\<open>dtb_get_sibling\<close>, \<^verbatim>\<open>dtb_get_child\<close>, \<^verbatim>\<open>dtb_get_parent\<close> and
  \<^verbatim>\<open>dtb_get_prop\<close> return \<^verbatim>\<open>NULL\<close> for a null node, \<^verbatim>\<open>dtb_stat_node\<close> returns false and
  leaves \<^verbatim>\<open>*stat\<close> as it was, \<^verbatim>\<open>dtb_read_prop_string\<close> returns \<^verbatim>\<open>NULL\<close> for a null
  property, and the four cell decoders return the count 0 and write no value. None of
  these functions has the parser state or the log of the error callback among its
  results: the source writes neither in any of them, so the state and the log after such
  a call are those before it, for a null handle as for any other.
\<close>

theorem null_handles_are_tolerated:
  "dtb_find_prop m st None name = Some None
   \<and> dtb_get_sibling st None = None
   \<and> dtb_get_child st None = None
   \<and> dtb_get_parent st None = None
   \<and> dtb_get_prop st None index = None
   \<and> dtb_stat_node st None stat = Some (False, stat)
   \<and> dtb_read_prop_string m st None index = CNull
   \<and> dtb_read_prop_values m st None k vals = Some (0, [])
   \<and> dtb_read_prop_pairs m st None lp vals = Some (0, [])
   \<and> dtb_read_prop_triplets m st None lt vals = Some (0, [])
   \<and> dtb_read_prop_quads m st None lq vals = Some (0, [])"
  by (simp add: dtb_find_prop_def dtb_get_sibling_def dtb_get_child_def dtb_get_parent_def
      dtb_get_prop_def dtb_stat_node_def dtb_read_prop_string_def dtb_read_prop_values_def
      dtb_read_prop_pairs_def dtb_read_prop_triplets_def dtb_read_prop_quads_def)

subsection \<open>Cell assembly\<close>

lemma unat_cell64: "unat (ucast (x :: 32 word) :: 64 word) = unat x"
proof -
  have "unat x < 2 ^ 32" using unsigned_less [of x] by simp
  then have "unat x < 2 ^ 64" by simp
  then show ?thesis
    by (simp add: unsigned_ucast_eq take_bit_nat_eq_self)
qed

lemma unat_cell64_shifted: "unat (push_bit 32 (ucast (a :: 32 word) :: 64 word)) = unat a * 2 ^ 32"
proof -
  have "unat a < 4294967296" using unsigned_less [of a] by simp
  then have "unat a * 4294967296 < 18446744073709551616" by linarith
  then have small: "unat a * 2 ^ 32 < 2 ^ 64" by simp
  have "unat (push_bit 32 (ucast a :: 64 word)) = take_bit 64 (push_bit 32 (unat (ucast a :: 64 word)))"
    using unsigned_push_bit_eq [of 32 "ucast a :: 64 word", where ?'a = nat] by simp
  also have "\<dots> = take_bit 64 (unat a * 2 ^ 32)"
    by (simp only: unat_cell64 push_bit_eq_mult)
  also have "\<dots> = unat a * 2 ^ 32"
    using small by (simp only: take_bit_nat_eq_self)
  finally show ?thesis .
qed

lemma unat_two_cells:
  "unat (push_bit 32 (ucast (a :: 32 word) :: 64 word) OR ucast (b :: 32 word)) = unat a * 2 ^ 32 + unat b"
proof -
  let ?A = "push_bit 32 (ucast a :: 64 word)" and ?B = "ucast b :: 64 word"
  have disj: "\<not> bit ?A n \<or> \<not> bit ?B n" for n
    by (auto simp add: bit_simps dest: bit_imp_le_length)
  have "?A OR ?B = ?A + ?B"
    by (rule disjunctive_add [symmetric]) (rule disj)
  moreover have "unat a < 2 ^ 32" "unat b < 2 ^ 32"
    using unsigned_less [of a] unsigned_less [of b] by simp_all
  then have "unat a * 4294967296 + unat b < 18446744073709551616"
    by simp
  then have "unat ?A + unat ?B < 2 ^ LENGTH(64)"
    by (simp only: unat_cell64 unat_cell64_shifted) simp
  then have "unat (?A + ?B) = unat ?A + unat ?B"
    by (simp only: unat_add_lem)
  ultimately show ?thesis
    by (simp add: unat_cell64 unat_cell64_shifted)
qed

lemma extract_cells_upto_two:
  "extract_cells m p 0 = 0"
  "extract_cells m p (Suc 0) = ucast (be32 (rd32 m p))"
  "extract_cells m p 2 = push_bit 32 (ucast (be32 (rd32 m p))) OR ucast (be32 (rd32 m (p + 4)))"
  by (simp_all add: extract_cells_def extract_cells_loop.simps)

lemma extract_cells_sum:
  assumes "count \<le> 2"
  shows "unat (extract_cells m p count)
       = (\<Sum>i<count. unat (be32 (rd32 m (p + 4 * i))) * 2 ^ ((count - 1 - i) * 32))"
proof -
  from assms consider "count = 0" | "count = Suc 0" | "count = 2" by linarith
  then show ?thesis
  proof cases
    case 1
    then show ?thesis by (simp add: extract_cells_upto_two)
  next
    case 2
    then show ?thesis by (simp add: extract_cells_upto_two unat_cell64)
  next
    case 3
    have "{..<2::nat} = {0, 1}" by auto
    then show ?thesis
      unfolding 3 extract_cells_upto_two unat_two_cells by simp
  qed
qed

lemma read_values_loop_length:
  "length (dtb_read_prop_values_loop m first_cell k count i vals) = length vals + (count - i)"
proof (induction m first_cell k count i vals rule: dtb_read_prop_values_loop.induct)
  case (1 m first_cell k count i vals)
  show ?case
  proof (cases "i < count")
    case True
    with 1 show ?thesis
      by (subst dtb_read_prop_values_loop.simps) (simp add: Let_def)
  next
    case False
    then show ?thesis
      by (subst dtb_read_prop_values_loop.simps) simp
  qed
qed

lemma parse_prop_fields:
  assumes "parse_prop m st offset = (st', Some pr, offset')"
  shows "p_first_cell (prop_buff st' pr) = cells st + 4 * (offset + 3)"
    and "p_length (prop_buff st' pr) = unat (be32 (rd32 m (cells st + 4 * (offset + 1))))"
  using assms
  by (auto simp add: parse_prop_def alloc_prop_def prop_store_def Let_def LOG_ERROR_def
      split: if_splits prod.splits option.splits)

lemma read_values_two_cells:
  assumes "be32 (rd32 m (fc - 8)) = 8" "be32 (rd32 m fc) = 1" "be32 (rd32 m (fc + 4)) = 2"
    and "p_first_cell (prop_buff st pr) = fc"
  shows "dtb_read_prop_values m st (Some pr) 2 True = Some (1, [0x100000002])"
  using assms
  by (simp add: dtb_read_prop_values_def Let_def dtb_read_prop_values_loop.simps extract_cells_upto_two)

text \<open>
  C8, as amended. For a group of at most two cells at \<open>p\<close>, the value that
  \<^verbatim>\<open>extract_cells\<close> returns is the sum over \<open>i < count\<close> of \<open>be32(p[i])\<close> times
  \<open>2 ^ ((count - 1 - i) * 32)\<close>, as a number: no bit is lost in the 64-bit accumulator.
  And for a property whose descriptor gives the length 8 and whose payload is
  \<^verbatim>\<open>00 00 00 01 00 00 00 02\<close>, \<^verbatim>\<open>dtb_read_prop_values(p, 2, out)\<close> returns 1 and writes
  \<open>0x100000002\<close> to \<^verbatim>\<open>out[0]\<close>.
\<close>

theorem cell_assembly_up_to_two_cells:
  "(count \<le> 2 \<longrightarrow>
      unat (extract_cells m p count)
        = (\<Sum>i<count. unat (be32 (rd32 m (p + 4 * i))) * 2 ^ ((count - 1 - i) * 32)))
   \<and> (be32 (rd32 m (fc - 8)) = 8 \<and> be32 (rd32 m fc) = 1 \<and> be32 (rd32 m (fc + 4)) = 2
        \<and> p_first_cell (prop_buff st pr) = fc \<longrightarrow>
      dtb_read_prop_values m st (Some pr) 2 True = Some (1, [0x100000002]))"
  using extract_cells_sum read_values_two_cells by blast

lemma mem_reg_cells:
  "be32 (rd32 mem_reg 0) = 3" "be32 (rd32 mem_reg 4) = 8" "be32 (rd32 mem_reg 8) = 0"
  "be32 (rd32 mem_reg 12) = 1" "be32 (rd32 mem_reg 16) = 2"
  by (simp_all add: mem_reg_def mem_of_def be32_def rd32_def)

lemma parse_prop_reg:
  "snd (parse_prop mem_reg state_reg 0) = (Some 0, 5)"
  "p_first_cell (prop_buff (fst (parse_prop mem_reg state_reg 0)) 0) = 12"
  "p_length (prop_buff (fst (parse_prop mem_reg state_reg 0)) 0) = 8"
  by (simp_all add: parse_prop_def state_reg_def initial_state_def alloc_prop_def prop_store_def cell_def
      Let_def mem_reg_cells FDT_PROP_def dtb_align_up_def)

text \<open>
  The witness: the descriptor \<open>mem_reg\<close>, parsed by \<^verbatim>\<open>parse_prop\<close>; its two payload cells
  1 and 2 assemble to \<open>4294967298 = 0x100000002\<close>.
\<close>

theorem cell_assembly_witness:
  "(2::nat) \<le> 2 \<and> unat (extract_cells mem_reg 12 2) = 4294967298
   \<and> dtb_read_prop_values mem_reg (fst (parse_prop mem_reg state_reg 0)) (Some 0) 2 True
       = Some (1, [0x100000002])"
  using cell_assembly_up_to_two_cells [of 2 mem_reg 12 12 "fst (parse_prop mem_reg state_reg 0)" 0]
  by (simp add: mem_reg_cells parse_prop_reg lessThan_nat_numeral lessThan_Suc)

lemma mem_three_cells:
  "be32 (rd32 mem_three 0) = 1" "be32 (rd32 mem_three 4) = 0" "be32 (rd32 mem_three 8) = 0"
  by (simp_all add: mem_three_def mem_of_def be32_def rd32_def)

text \<open>
  The claim as stated, for every \<open>k\<close>, fails for three cells: for the cells 1, 0, 0 the sum
  is \<open>2 ^ 64\<close>, which no value of the 64-bit accumulator equals.
\<close>

theorem cell_assembly_three_cells_counterexample:
  "unat (extract_cells mem_three 0 3)
     \<noteq> (\<Sum>i<3. unat (be32 (rd32 mem_three (0 + 4 * i))) * 2 ^ ((3 - 1 - i) * 32))"
  by (simp add: extract_cells_def extract_cells_loop.simps mem_three_cells lessThan_nat_numeral lessThan_Suc)

subsection \<open>Counting the values of a property\<close>

lemma ucast_cell_of_nat: "(ucast (x :: 32 word) :: 64 word) = word_of_nat (unat x)"
  by simp

text \<open>
  Claim C7, as amended. Let \<open>pr\<close> be a property that \<^verbatim>\<open>parse_prop\<close> has just parsed and
  \<open>k\<close> a cell count below \<open>2 ^ 62\<close>, so that \<^verbatim>\<open>cell_count * FDT_CELL_SIZE\<close> does not wrap
  in \<^verbatim>\<open>size_t\<close>. With \<open>k = 0\<close>, \<^verbatim>\<open>dtb_read_prop_values\<close> returns 0 and writes nothing.
  With \<open>k > 0\<close> and a null \<^verbatim>\<open>out\<close> it returns \<^verbatim>\<open>p.length / (k * 4)\<close>, the quotient of the
  natural numbers, and writes nothing; with a non-null \<^verbatim>\<open>out\<close> it returns the same count
  and writes exactly that many values.
\<close>

theorem read_prop_values_count_below_wrap:
  assumes "parse_prop m st offset = (st', Some pr, offset')"
    and "unat k < 2 ^ 62"
  shows "dtb_read_prop_values m st' (Some pr) 0 vals = Some (0, [])
     \<and> (k \<noteq> 0 \<longrightarrow>
          dtb_read_prop_values m st' (Some pr) k False
            = Some (word_of_nat (p_length (prop_buff st' pr) div (unat k * 4)), []))
     \<and> (k \<noteq> 0 \<longrightarrow>
          (\<exists>vs. dtb_read_prop_values m st' (Some pr) k True
                  = Some (word_of_nat (p_length (prop_buff st' pr) div (unat k * 4)), vs)
                \<and> length vs = p_length (prop_buff st' pr) div (unat k * 4)))"
proof -
  note f = parse_prop_fields [OF assms(1)]
  have "p_first_cell (prop_buff st' pr) - 8 = cells st + 4 * (offset + 1)"
    by (simp add: f)
  then have len: "(ucast (be32 (rd32 m (p_first_cell (prop_buff st' pr) - 8))) :: 64 word)
      = word_of_nat (p_length (prop_buff st' pr))"
    by (simp only: f ucast_cell_of_nat)
  have zero: "dtb_read_prop_values m st' (Some pr) 0 vals = Some (0, [])"
    by (simp add: dtb_read_prop_values_def)
  have "unat k * unat (4 :: 64 word) < 2 ^ LENGTH(64)" using assms(2) by simp
  then have "unat (k * 4) = unat k * unat (4 :: 64 word)"
    by (simp only: unat_mult_lem)
  then have k4: "unat (k * 4) = unat k * 4" by simp
  have l: "p_length (prop_buff st' pr) < 2 ^ 32"
    using unsigned_less [of "be32 (rd32 m (cells st + 4 * (offset + 1)))"] by (simp add: f)
  then have "unat (word_of_nat (p_length (prop_buff st' pr)) :: 64 word) = p_length (prop_buff st' pr)"
    by (simp add: unat_of_nat)
  then have q: "unat (word_of_nat (p_length (prop_buff st' pr)) div (k * 4) :: 64 word)
            = p_length (prop_buff st' pr) div (unat k * 4)"
    by (simp add: unat_div k4)
  have count: "(word_of_nat (p_length (prop_buff st' pr)) div (k * 4) :: 64 word)
            = word_of_nat (p_length (prop_buff st' pr) div (unat k * 4))"
    by (simp only: q [symmetric] of_nat_unat ucast_id)
  have nz: "k * 4 \<noteq> 0" if "k \<noteq> 0"
  proof
    assume "k * 4 = 0"
    then have "unat (k * 4) = 0" by simp
    with k4 have "unat k = 0" by simp
    with that show False by (simp add: unat_eq_0)
  qed
  have null: "dtb_read_prop_values m st' (Some pr) k False
            = Some (word_of_nat (p_length (prop_buff st' pr) div (unat k * 4)), [])"
    if "k \<noteq> 0"
    using that nz [OF that] by (simp add: dtb_read_prop_values_def Let_def len count)
  have out: "\<exists>vs. dtb_read_prop_values m st' (Some pr) k True
                  = Some (word_of_nat (p_length (prop_buff st' pr) div (unat k * 4)), vs)
                \<and> length vs = p_length (prop_buff st' pr) div (unat k * 4)"
    if "k \<noteq> 0"
    using that nz [OF that] q
    by (simp add: dtb_read_prop_values_def Let_def len read_values_loop_length count)
  from zero null out show ?thesis by blast
qed

text \<open>
  The witness: the property of \<open>mem_reg\<close>, of length 8, holds two values of one cell.
\<close>

theorem read_prop_values_count_below_wrap_witness:
  "parse_prop mem_reg state_reg 0
      = (fst (parse_prop mem_reg state_reg 0), Some 0, 5)
   \<and> unat (1 :: 64 word) < 2 ^ 62 \<and> (1 :: 64 word) \<noteq> 0
   \<and> dtb_read_prop_values mem_reg (fst (parse_prop mem_reg state_reg 0)) (Some 0) 0 True = Some (0, [])
   \<and> dtb_read_prop_values mem_reg (fst (parse_prop mem_reg state_reg 0)) (Some 0) 1 False = Some (2, [])
   \<and> (\<exists>vs. dtb_read_prop_values mem_reg (fst (parse_prop mem_reg state_reg 0)) (Some 0) 1 True
             = Some (2, vs) \<and> length vs = 2)"
proof -
  have p: "parse_prop mem_reg state_reg 0 = (fst (parse_prop mem_reg state_reg 0), Some 0, 5)"
    using parse_prop_reg(1) by (cases "parse_prop mem_reg state_reg 0") simp
  have k: "unat (1 :: 64 word) < 2 ^ 62" by simp
  from read_prop_values_count_below_wrap [OF p k, of True] show ?thesis
    using p by (simp add: parse_prop_reg)
qed

text \<open>
  Claim C7 as stated, for every cell count, fails where \<^verbatim>\<open>cell_count * FDT_CELL_SIZE\<close>
  wraps. For the property of \<open>mem_reg\<close>, of length 8, and \<open>k = 2 ^ 62 + 1\<close> the product
  wraps to 4 and the call returns 2, where \<^verbatim>\<open>p.length / (k * 4)\<close> is 0; for \<open>k = 2 ^ 62\<close>
  the product wraps to 0 and the division does not return.
\<close>

theorem read_prop_values_count_wrapped_counterexample:
  "snd (parse_prop mem_reg state_reg 0) = (Some 0, 5)
   \<and> p_length (prop_buff (fst (parse_prop mem_reg state_reg 0)) 0) = 8
   \<and> unat (4611686018427387905 :: 64 word) = 2 ^ 62 + 1
   \<and> dtb_read_prop_values mem_reg (fst (parse_prop mem_reg state_reg 0)) (Some 0)
        4611686018427387905 False = Some (2, [])
   \<and> p_length (prop_buff (fst (parse_prop mem_reg state_reg 0)) 0)
        div (unat (4611686018427387905 :: 64 word) * 4) = 0
   \<and> dtb_read_prop_values mem_reg (fst (parse_prop mem_reg state_reg 0)) (Some 0)
        4611686018427387904 False = None"
  by (simp add: parse_prop_reg dtb_read_prop_values_def Let_def mem_reg_cells)

subsection \<open>The loop of the parser\<close>





lemma LOG_ERROR_fields [simp]:
  "node_buff (LOG_ERROR st msg) = node_buff st"
  "node_alloc_head (LOG_ERROR st msg) = node_alloc_head st"
  "cells (LOG_ERROR st msg) = cells st"
  "cell_count (LOG_ERROR st msg) = cell_count st"
  by (simp_all add: LOG_ERROR_def)




lemma link_prop_fields [simp]:
  "node_buff (link_prop st node pr) i
     = (if i = node then (node_buff st node)\<lparr>n_props := Some pr\<rparr> else node_buff st i)"
  "node_alloc_head (link_prop st node pr) = node_alloc_head st"
  "cells (link_prop st node pr) = cells st"
  "cell_count (link_prop st node pr) = cell_count st"
  by (simp_all add: link_prop_def prop_store_def node_store_def Let_def)

lemma link_child_fields [simp]:
  "node_alloc_head (link_child st node child) = node_alloc_head st"
  "cells (link_child st node child) = cells st"
  "cell_count (link_child st node child) = cell_count st"
  by (simp_all add: link_child_def node_store_def Let_def)













subsection \<open>Evaluation on the example blobs\<close>


lemma mem_tree_outside: "118 \<le> a \<Longrightarrow> mem_tree a = 0"
  by (simp add: mem_tree_def mem_of_def blob_tree_def)


lemmas parse_eval =
  host_ops_def initial_state_def
  dtb_init_def dtb_init_with_config_def dtb_init_with_config_loop.simps parse_node_def parse_node_begin_def
  parse_node_loop.simps parse_prop_def alloc_node_def alloc_prop_def alloc_buffers_def alloc_buffers_loop.simps
  free_buffers_def LOG_ERROR_def cell_def FDT_MAGIC_def FDT_BEGIN_NODE_def FDT_END_NODE_def FDT_PROP_def
  FDT_CELL_SIZE_def node_store_def prop_store_def link_child_def link_prop_def
  string_len_def string_len_from.simps dtb_align_up_def
  zero_node_def zero_prop_def check_for_special_prop_def Let_def




subsection \<open>The defects of the source on the example blobs\<close>

text \<open>
  The bytes and the big-endian cells of \<open>mem_min\<close>, \<open>mem_dev\<close> and \<open>mem_rt\<close>, as facts
  for the simplifier.
\<close>

lemma mem_min_bytes:
  "mem_min 56 = 0" "mem_min 57 = 0" "mem_min 58 = 0" "mem_min 59 = 1"
  "mem_min 60 = 0" "mem_min 61 = 0" "mem_min 62 = 0" "mem_min 63 = 0"
  "mem_min 64 = 0" "mem_min 65 = 0" "mem_min 66 = 0" "mem_min 67 = 2"
  "mem_min 68 = 0" "mem_min 69 = 0" "mem_min 70 = 0" "mem_min 71 = 9"
  by (simp_all add: mem_min_def mem_of_def blob_min_def)

lemma mem_min_outside: "72 \<le> a \<Longrightarrow> mem_min a = 0"
  by (simp add: mem_min_def mem_of_def blob_min_def)

lemma mem_min_cells:
  "be32 (rd32 mem_min 0) = 3490578157" "be32 (rd32 mem_min 4) = 72" "be32 (rd32 mem_min 8) = 56" "be32 (rd32 mem_min 12) = 72"
  "be32 (rd32 mem_min 16) = 40" "be32 (rd32 mem_min 20) = 17" "be32 (rd32 mem_min 24) = 16" "be32 (rd32 mem_min 28) = 0"
  "be32 (rd32 mem_min 32) = 0" "be32 (rd32 mem_min 36) = 16" "be32 (rd32 mem_min 56) = 1" "be32 (rd32 mem_min 60) = 0"
  "be32 (rd32 mem_min 64) = 2" "be32 (rd32 mem_min 68) = 9"
  by (simp_all add: mem_min_def mem_of_def blob_min_def be32_def rd32_def)

lemma mem_dev_bytes:
  "mem_dev 56 = 0" "mem_dev 57 = 0" "mem_dev 58 = 0" "mem_dev 59 = 1"
  "mem_dev 60 = 0" "mem_dev 61 = 0" "mem_dev 62 = 0" "mem_dev 63 = 0"
  "mem_dev 64 = 0" "mem_dev 65 = 0" "mem_dev 66 = 0" "mem_dev 67 = 3"
  "mem_dev 68 = 0" "mem_dev 69 = 0" "mem_dev 70 = 0" "mem_dev 71 = 3"
  "mem_dev 72 = 0" "mem_dev 73 = 0" "mem_dev 74 = 0" "mem_dev 75 = 0"
  "mem_dev 76 = 97" "mem_dev 77 = 98" "mem_dev 78 = 0" "mem_dev 79 = 0"
  "mem_dev 80 = 0" "mem_dev 81 = 0" "mem_dev 82 = 0" "mem_dev 83 = 3"
  "mem_dev 84 = 0" "mem_dev 85 = 0" "mem_dev 86 = 0" "mem_dev 87 = 4"
  "mem_dev 88 = 0" "mem_dev 89 = 0" "mem_dev 90 = 0" "mem_dev 91 = 11"
  "mem_dev 92 = 0" "mem_dev 93 = 0" "mem_dev 94 = 0" "mem_dev 95 = 1"
  "mem_dev 96 = 0" "mem_dev 97 = 0" "mem_dev 98 = 0" "mem_dev 99 = 2"
  "mem_dev 100 = 0" "mem_dev 101 = 0" "mem_dev 102 = 0" "mem_dev 103 = 9"
  "mem_dev 104 = 99" "mem_dev 105 = 111" "mem_dev 106 = 109" "mem_dev 107 = 112"
  "mem_dev 108 = 97" "mem_dev 109 = 116" "mem_dev 110 = 105" "mem_dev 111 = 98"
  "mem_dev 112 = 108" "mem_dev 113 = 101" "mem_dev 114 = 0" "mem_dev 115 = 112"
  "mem_dev 116 = 104" "mem_dev 117 = 97" "mem_dev 118 = 110" "mem_dev 119 = 100"
  "mem_dev 120 = 108" "mem_dev 121 = 101" "mem_dev 122 = 0"
  by (simp_all add: mem_dev_def mem_of_def blob_dev_def)

lemma mem_dev_outside: "123 \<le> a \<Longrightarrow> mem_dev a = 0"
  by (simp add: mem_dev_def mem_of_def blob_dev_def)

lemma mem_dev_cells:
  "be32 (rd32 mem_dev 0) = 3490578157" "be32 (rd32 mem_dev 4) = 123" "be32 (rd32 mem_dev 8) = 56" "be32 (rd32 mem_dev 12) = 104"
  "be32 (rd32 mem_dev 16) = 40" "be32 (rd32 mem_dev 20) = 17" "be32 (rd32 mem_dev 24) = 16" "be32 (rd32 mem_dev 28) = 0"
  "be32 (rd32 mem_dev 32) = 19" "be32 (rd32 mem_dev 36) = 48" "be32 (rd32 mem_dev 56) = 1" "be32 (rd32 mem_dev 60) = 0"
  "be32 (rd32 mem_dev 64) = 3" "be32 (rd32 mem_dev 68) = 3" "be32 (rd32 mem_dev 72) = 0" "be32 (rd32 mem_dev 76) = 1633812480"
  "be32 (rd32 mem_dev 80) = 3" "be32 (rd32 mem_dev 84) = 4" "be32 (rd32 mem_dev 88) = 11" "be32 (rd32 mem_dev 92) = 1"
  "be32 (rd32 mem_dev 96) = 2" "be32 (rd32 mem_dev 100) = 9"
  by (simp_all add: mem_dev_def mem_of_def blob_dev_def be32_def rd32_def)

lemma mem_rt_bytes:
  "mem_rt 56 = 0" "mem_rt 57 = 0" "mem_rt 58 = 0" "mem_rt 59 = 1"
  "mem_rt 60 = 0" "mem_rt 61 = 0" "mem_rt 62 = 0" "mem_rt 63 = 0"
  "mem_rt 64 = 0" "mem_rt 65 = 0" "mem_rt 66 = 0" "mem_rt 67 = 3"
  "mem_rt 68 = 0" "mem_rt 69 = 0" "mem_rt 70 = 0" "mem_rt 71 = 4"
  "mem_rt 72 = 0" "mem_rt 73 = 0" "mem_rt 74 = 0" "mem_rt 75 = 0"
  "mem_rt 76 = 0" "mem_rt 77 = 0" "mem_rt 78 = 0" "mem_rt 79 = 1"
  "mem_rt 80 = 0" "mem_rt 81 = 0" "mem_rt 82 = 0" "mem_rt 83 = 3"
  "mem_rt 84 = 0" "mem_rt 85 = 0" "mem_rt 86 = 0" "mem_rt 87 = 0"
  "mem_rt 88 = 0" "mem_rt 89 = 0" "mem_rt 90 = 0" "mem_rt 91 = 3"
  "mem_rt 92 = 0" "mem_rt 93 = 0" "mem_rt 94 = 0" "mem_rt 95 = 2"
  "mem_rt 96 = 0" "mem_rt 97 = 0" "mem_rt 98 = 0" "mem_rt 99 = 9"
  "mem_rt 100 = 97" "mem_rt 101 = 98" "mem_rt 102 = 0" "mem_rt 103 = 120"
  "mem_rt 104 = 121" "mem_rt 105 = 0"
  by (simp_all add: mem_rt_def mem_of_def blob_rt_def)

lemma mem_rt_outside: "106 \<le> a \<Longrightarrow> mem_rt a = 0"
  by (simp add: mem_rt_def mem_of_def blob_rt_def)

lemma mem_rt_cells:
  "be32 (rd32 mem_rt 0) = 3490578157" "be32 (rd32 mem_rt 4) = 106" "be32 (rd32 mem_rt 8) = 56" "be32 (rd32 mem_rt 12) = 100"
  "be32 (rd32 mem_rt 16) = 40" "be32 (rd32 mem_rt 20) = 17" "be32 (rd32 mem_rt 24) = 16" "be32 (rd32 mem_rt 28) = 0"
  "be32 (rd32 mem_rt 32) = 6" "be32 (rd32 mem_rt 36) = 44" "be32 (rd32 mem_rt 56) = 1" "be32 (rd32 mem_rt 60) = 0"
  "be32 (rd32 mem_rt 64) = 3" "be32 (rd32 mem_rt 68) = 4" "be32 (rd32 mem_rt 72) = 0" "be32 (rd32 mem_rt 76) = 1"
  "be32 (rd32 mem_rt 80) = 3" "be32 (rd32 mem_rt 84) = 0" "be32 (rd32 mem_rt 88) = 3" "be32 (rd32 mem_rt 92) = 2"
  "be32 (rd32 mem_rt 96) = 9"
  by (simp_all add: mem_rt_def mem_of_def blob_rt_def be32_def rd32_def)

lemmas query_eval =
  dtb_find_prop_def dtb_find_prop_loop.simps dtb_find_compatible_def dtb_find_compatible_loop.simps
  dtb_find_compatible_strings.simps dtb_read_prop_string_def dtb_read_prop_string_loop.simps
  strings_eq_def strings_eq_from.simps string_len_def string_len_from.simps
  dtb_find_phandle_def dtb_read_prop_values_def dtb_read_prop_values_loop.simps
  extract_cells_def extract_cells_loop.simps dtb_stat_node_def count_props.simps count_siblings.simps
  ROOT_NODE_STR_def Let_def

lemmas finalise_eval =
  dtb_finalise_to_buffer_def do_foreach_sibling_init_finalise_data.simps do_foreach_sibling_print_node.simps
  do_foreach_prop_def do_foreach_prop_loop.simps init_finalise_data_prop_def print_prop_def
  print_prop_cells.simps memcpy_def memcpy_loop.simps
  SMOLDTB_FOREACH_ABORT_def SMOLDTB_FOREACH_CONTINUE_def FDT_VERSION_def
  FDT_MAGIC_def FDT_BEGIN_NODE_def FDT_END_NODE_def FDT_PROP_def FDT_CELL_SIZE_def
  string_len_def string_len_from.simps dtb_align_up_def Let_def
  rd32_wr32_same rd32_wr32_other wr32_other rd32_upd_other wr64_other rd32_wr64_other be32_be32 be32_0

text \<open>
  \<^verbatim>\<open>alloc_buffers\<close> counts one slot per \<^verbatim>\<open>FDT_BEGIN_NODE\<close> cell and \<^verbatim>\<open>alloc_node\<close> hands
  out a slot only while \<^verbatim>\<open>node_alloc_head + 1 < node_alloc_max\<close>: the last slot is never
  given out. On the minimal blob the only slot is the last one.
\<close>

lemma parse_min:
  "\<exists>st. dtb_init mem_min initial_state 0 host_ops = Some (True, st)
     \<and> root st = None \<and> node_alloc_max st = 1 \<and> node_alloc_head st = 0
     \<and> errors st = [''Node allocator ran out of space'', ''Node allocation failed'']"
  by (simp add: parse_eval mem_min_cells mem_min_bytes)

text \<open>
  Claim C3 (fails on the code): on the minimal valid blob, \<^verbatim>\<open>BEGIN_NODE "" END_NODE END\<close>
  with an empty strings block, \<^verbatim>\<open>dtb_init\<close> returns true and stat of the root reports
  the name \<^verbatim>\<open>/\<close>, no property and no child. The code returns true, but the arena has
  one node slot and \<^verbatim>\<open>alloc_node\<close> refuses it: two errors are logged, the root stays
  \<^verbatim>\<open>NULL\<close>, and \<^verbatim>\<open>dtb_stat_node\<close> of the root returns false and leaves the stat record
  as it was.
\<close>

theorem minimal_blob_has_no_root:
  "\<exists>st. dtb_init mem_min initial_state 0 host_ops = Some (True, st)
     \<and> node_alloc_max st = 1
     \<and> errors st = [''Node allocator ran out of space'', ''Node allocation failed'']
     \<and> root st = None
     \<and> dtb_stat_node st (root st) stat = Some (False, stat)"
proof -
  from parse_min obtain st where
    "dtb_init mem_min initial_state 0 host_ops = Some (True, st)" "root st = None"
    "node_alloc_max st = 1"
    "errors st = [''Node allocator ran out of space'', ''Node allocation failed'']"
    by blast
  then show ?thesis by (simp add: dtb_stat_node_def)
qed

text \<open>
  \<open>blob_dev\<close> parses to a root with the property list \<^verbatim>\<open>phandle\<close> (slot 1),
  \<^verbatim>\<open>compatible\<close> (slot 0).
\<close>

lemma parse_dev:
  "\<exists>st. dtb_init mem_dev initial_state 0 host_ops = Some (True, st)
     \<and> root st = Some 0 \<and> node_alloc_max st = 2 \<and> node_alloc_head st = 1
     \<and> handle_lookup st 1 = None
     \<and> node_buff st 0 = \<lparr>n_parent = None, n_sibling = None, n_child = None, n_props = Some 1,
                           n_name = CNull\<rparr>
     \<and> prop_buff st 1 = \<lparr>p_name = CPtr 115, p_first_cell = 92, p_length = 4, p_next = Some 0\<rparr>
     \<and> prop_buff st 0 = \<lparr>p_name = CPtr 104, p_first_cell = 76, p_length = 3, p_next = None\<rparr>"
  by (simp add: parse_eval mem_dev_cells mem_dev_bytes)

text \<open>
  Claim C1 (fails on the code): for every parsed property named \<^verbatim>\<open>phandle\<close> or
  \<^verbatim>\<open>linux,phandle\<close> on a node \<open>n\<close>, with value \<open>h\<close>, the parser stores \<open>n\<close> at slot \<open>h\<close> of
  the phandle index, so that \<^verbatim>\<open>dtb_find_phandle(h)\<close> returns \<open>n\<close>. The guard of
  \<^verbatim>\<open>check_for_special_prop\<close> holds for every character, so the function always returns
  before its stores. On \<open>blob_dev\<close> the root has the property \<^verbatim>\<open>phandle\<close>, it decodes
  to 1, 1 is inside the index, and \<^verbatim>\<open>dtb_find_phandle(1)\<close> is \<^verbatim>\<open>NULL\<close>.
\<close>

theorem phandle_index_is_not_filled:
  "\<exists>st. dtb_init mem_dev initial_state 0 host_ops = Some (True, st)
     \<and> root st = Some 0
     \<and> dtb_find_prop mem_dev st (root st) (CLit ''phandle'') = Some (Some 1)
     \<and> dtb_read_prop_values mem_dev st (Some 1) 1 True = Some (1, [1])
     \<and> 1 < node_alloc_max st
     \<and> dtb_find_phandle st 1 = None"
proof -
  from parse_dev obtain st where
    "dtb_init mem_dev initial_state 0 host_ops = Some (True, st)"
    "root st = Some 0" "node_alloc_max st = 2" "handle_lookup st 1 = None"
    "node_buff st 0 = \<lparr>n_parent = None, n_sibling = None, n_child = None, n_props = Some 1,
                           n_name = CNull\<rparr>"
    "prop_buff st 1 = \<lparr>p_name = CPtr 115, p_first_cell = 92, p_length = 4, p_next = Some 0\<rparr>"
    "prop_buff st 0 = \<lparr>p_name = CPtr 104, p_first_cell = 76, p_length = 3, p_next = None\<rparr>"
    by blast
  then show ?thesis
    by (intro exI [of _ st]) (simp add: query_eval mem_dev_cells mem_dev_bytes)
qed

text \<open>
  Claim C5 (fails on the code): \<^verbatim>\<open>dtb_find_compatible(start, s)\<close> returns the first node
  whose \<^verbatim>\<open>compatible\<close> list contains a string exactly equal to \<open>s\<close>, byte for byte and
  of the same length. The code compares with \<^verbatim>\<open>strings_eq\<close> over the length of \<open>s\<close> and
  never compares the lengths (as \<^verbatim>\<open>dtb_find_prop\<close> does): every string that \<open>s\<close> is a
  prefix of matches. On \<open>blob_dev\<close> the only compatible string of the root is
  \<^verbatim>\<open>ab\<close>, and the query \<^verbatim>\<open>a\<close> returns the root.
\<close>

theorem find_compatible_accepts_a_prefix:
  "\<exists>st. dtb_init mem_dev initial_state 0 host_ops = Some (True, st)
     \<and> dtb_find_prop mem_dev st (Some 0) (CLit ''compatible'') = Some (Some 0)
     \<and> p_length (prop_buff st 0) = 3
     \<and> dtb_read_prop_string mem_dev st (Some 0) 0 = CPtr 76
     \<and> mem_dev 76 = of_char CHR ''a'' \<and> mem_dev 77 = of_char CHR ''b'' \<and> mem_dev 78 = 0
     \<and> dtb_find_compatible mem_dev st None (CLit ''a'') = Some (Some 0)"
proof -
  from parse_dev obtain st where
    "dtb_init mem_dev initial_state 0 host_ops = Some (True, st)"
    "root st = Some 0" "node_alloc_head st = 1"
    "node_buff st 0 = \<lparr>n_parent = None, n_sibling = None, n_child = None, n_props = Some 1,
                           n_name = CNull\<rparr>"
    "prop_buff st 1 = \<lparr>p_name = CPtr 115, p_first_cell = 92, p_length = 4, p_next = Some 0\<rparr>"
    "prop_buff st 0 = \<lparr>p_name = CPtr 104, p_first_cell = 76, p_length = 3, p_next = None\<rparr>"
    by blast
  then show ?thesis
    by (intro exI [of _ st]) (simp add: query_eval mem_dev_cells mem_dev_bytes)
qed

text \<open>
  Claim C6 (fails on the code): \<^verbatim>\<open>dtb_read_prop_string(p, i)\<close> reads exactly the
  \<^verbatim>\<open>length\<close> bytes of the payload of \<open>p\<close> and returns \<^verbatim>\<open>NULL\<close> when \<open>i\<close> is at or past
  the end of the payload. The loop of the code runs over \<^verbatim>\<open>length * 4\<close> bytes. On
  \<open>blob_dev\<close> the payload of \<^verbatim>\<open>compatible\<close> is the three bytes \<^verbatim>\<open>a\<close>, \<^verbatim>\<open>b\<close>, NUL at 76, one
  string; index 1 gives \<^verbatim>\<open>NULL\<close>, but index 5 gives a pointer to byte 83, the last
  byte of the \<^verbatim>\<open>FDT_PROP\<close> token of the next property.
\<close>

theorem read_prop_string_scans_past_the_payload:
  "\<exists>st. dtb_init mem_dev initial_state 0 host_ops = Some (True, st)
     \<and> p_first_cell (prop_buff st 0) = 76 \<and> p_length (prop_buff st 0) = 3
     \<and> dtb_read_prop_string mem_dev st (Some 0) 0 = CPtr 76
     \<and> dtb_read_prop_string mem_dev st (Some 0) 1 = CNull
     \<and> dtb_read_prop_string mem_dev st (Some 0) 5 = CPtr 83"
proof -
  from parse_dev obtain st where
    "dtb_init mem_dev initial_state 0 host_ops = Some (True, st)"
    "prop_buff st 0 = \<lparr>p_name = CPtr 104, p_first_cell = 76, p_length = 3, p_next = None\<rparr>"
    by blast
  then show ?thesis
    by (intro exI [of _ st]) (simp add: query_eval mem_dev_bytes)
qed

text \<open>
  \<open>blob_rt\<close> parses to a root with the property list \<^verbatim>\<open>xy\<close> (slot 1, empty),
  \<^verbatim>\<open>ab\<close> (slot 0, one cell). Its serialization needs 103 bytes: a header of 40, a
  reservation block of 16, ten cells and seven bytes of strings.
\<close>

lemma parse_rt:
  "\<exists>st. dtb_init mem_rt initial_state 0 host_ops = Some (True, st)
     \<and> root st = Some 0
     \<and> node_buff st 0 = \<lparr>n_parent = None, n_sibling = None, n_child = None, n_props = Some 1,
                           n_name = CNull\<rparr>
     \<and> prop_buff st 1 = \<lparr>p_name = CPtr 103, p_first_cell = 92, p_length = 0, p_next = Some 0\<rparr>
     \<and> prop_buff st 0 = \<lparr>p_name = CPtr 100, p_first_cell = 76, p_length = 4, p_next = None\<rparr>"
  by (simp add: parse_eval mem_rt_cells mem_rt_bytes)

lemma finalise_rt:
  assumes "root st = Some 0"
    and "node_buff st 0 = \<lparr>n_parent = None, n_sibling = None, n_child = None, n_props = Some 1,
                           n_name = CNull\<rparr>"
    and "prop_buff st 1 = \<lparr>p_name = CPtr 103, p_first_cell = 92, p_length = 0, p_next = Some 0\<rparr>"
    and "prop_buff st 0 = \<lparr>p_name = CPtr 100, p_first_cell = 76, p_length = 4, p_next = None\<rparr>"
  shows "dtb_finalise_to_buffer mem_rt st None buffer_size boot_cpu_id = Some (Bytes 103, mem_rt)"
    and "103 < buffer_size \<Longrightarrow>
         dtb_finalise_to_buffer mem_rt st (Some 256) buffer_size 0 = Some (Bytes 103, mem_rt)"
    and "buffer_size \<le> 103 \<Longrightarrow>
         dtb_finalise_to_buffer mem_rt st (Some 256) buffer_size 0 = Some (Bytes 103, mem_rt_out)"
  using assms
  by (simp_all add: finalise_eval mem_rt_bytes mem_rt_cells mem_rt_outside mem_rt_out_def)

text \<open>The header and the structure block that the serializer has written.\<close>

lemma mem_rt_out_cells:
  "be32 (rd32 mem_rt_out 256) = 3490578157" "be32 (rd32 mem_rt_out 260) = 103" "be32 (rd32 mem_rt_out 264) = 56"
  "be32 (rd32 mem_rt_out 268) = 96" "be32 (rd32 mem_rt_out 272) = 40" "be32 (rd32 mem_rt_out 276) = 17"
  "be32 (rd32 mem_rt_out 280) = 16" "be32 (rd32 mem_rt_out 284) = 0" "be32 (rd32 mem_rt_out 288) = 7"
  "be32 (rd32 mem_rt_out 292) = 40" "be32 (rd32 mem_rt_out 312) = 1" "be32 (rd32 mem_rt_out 320) = 3"
  "be32 (rd32 mem_rt_out 324) = 0" "be32 (rd32 mem_rt_out 328) = 1" "be32 (rd32 mem_rt_out 332) = 3"
  "be32 (rd32 mem_rt_out 336) = 4" "be32 (rd32 mem_rt_out 340) = 4" "be32 (rd32 mem_rt_out 344) = 1"
  "be32 (rd32 mem_rt_out 348) = 2"
  by (simp_all add: mem_rt_out_def Let_def FDT_MAGIC_def FDT_VERSION_def FDT_BEGIN_NODE_def FDT_PROP_def
      FDT_END_NODE_def rd32_wr32_same rd32_wr32_other rd32_upd_other rd32_wr64_other be32_be32 be32_0
      mem_rt_cells)

lemma mem_rt_out_bytes:
  "mem_rt_out 256 = 208"
  "mem_rt_out 316 = 0" "mem_rt_out 317 = 0" "mem_rt_out 318 = 0" "mem_rt_out 319 = 0"
  "mem_rt_out 348 = 0"
  by (simp_all add: mem_rt_out_def Let_def wr32_other wr64_other mem_rt_outside wr32_be32_first
      FDT_END_NODE_def FDT_MAGIC_def)

lemma mem_rt_out_cell_316: "be32 (rd32 mem_rt_out 316) = 0"
  by (simp add: rd32_zero mem_rt_out_bytes be32_0)

text \<open>
  In the serialized blob the name offsets are 1 and 4, so exactly two cells hold
  \<^verbatim>\<open>FDT_PROP\<close>, and \<^verbatim>\<open>alloc_prop\<close> refuses the second property. The parser then walks
  over the payload, meets the payload cell 1 as a \<^verbatim>\<open>FDT_BEGIN_NODE\<close> and runs off the
  end of the structure block.
\<close>

lemma parse_rt_out:
  "\<exists>st. dtb_init mem_rt_out initial_state 256 host_ops = Some (True, st) \<and> root st = None
     \<and> node_alloc_max st = 3 \<and> prop_alloc_max st = 2
     \<and> errors st = [''Property allocator ran out of space'', ''Property allocation failed'',
                      ''Node is missing terminating tag.'', ''Node is missing terminating tag.'']"
  by (simp add: parse_eval mem_rt_out_cells mem_rt_out_cell_316 mem_rt_out_bytes)

text \<open>
  Claim C2 (fails on the code): when the buffer is null, or \<^verbatim>\<open>buf_size\<close> is strictly
  less than the total size, or the buffer is not aligned, \<^verbatim>\<open>dtb_finalise_to_buffer\<close>
  emits nothing and returns the total size; with a large enough buffer it emits and
  returns the total size. The test of the code is \<^verbatim>\<open>total_bytes < buffer_size\<close>, the
  comparison reversed. For the tree of \<open>blob_rt\<close> the total is 103 (the sizing query
  with the null buffer); with an aligned buffer of 8 bytes at 256 the code writes the
  whole blob, from the magic at 256 to the \<^verbatim>\<open>FDT_END_NODE\<close> token at 348, far past the
  8 bytes; with a buffer of 4096 bytes it writes nothing.
\<close>

theorem finalise_writes_into_a_short_buffer:
  "\<exists>st. dtb_init mem_rt initial_state 0 host_ops = Some (True, st)
     \<and> dtb_finalise_to_buffer mem_rt st None 0 0 = Some (Bytes 103, mem_rt)
     \<and> dtb_finalise_to_buffer mem_rt st (Some 256) 8 0 = Some (Bytes 103, mem_rt_out)
     \<and> mem_rt 256 = 0 \<and> mem_rt_out 256 = 208
     \<and> rd32 mem_rt 348 = 0 \<and> be32 (rd32 mem_rt_out 348) = FDT_END_NODE
     \<and> dtb_finalise_to_buffer mem_rt st (Some 256) 4096 0 = Some (Bytes 103, mem_rt)"
proof -
  from parse_rt obtain st where
    "dtb_init mem_rt initial_state 0 host_ops = Some (True, st)"
    and st: "root st = Some 0"
    "node_buff st 0 = \<lparr>n_parent = None, n_sibling = None, n_child = None, n_props = Some 1,
                           n_name = CNull\<rparr>"
    "prop_buff st 1 = \<lparr>p_name = CPtr 103, p_first_cell = 92, p_length = 0, p_next = Some 0\<rparr>"
    "prop_buff st 0 = \<lparr>p_name = CPtr 100, p_first_cell = 76, p_length = 4, p_next = None\<rparr>"
    by blast
  moreover have "rd32 mem_rt 348 = 0"
    by (rule rd32_zero) (simp_all add: mem_rt_outside)
  ultimately show ?thesis
    using finalise_rt [OF st]
    by (intro exI [of _ st])
       (simp add: mem_rt_outside mem_rt_out_bytes mem_rt_out_cells FDT_END_NODE_def)
qed

text \<open>
  Claim C4 (fails on the code): parsing a blob \<open>B\<close>, serializing the tree into \<open>B'\<close> and
  parsing \<open>B'\<close> gives a tree structurally equal to the first, and \<open>B'\<close> has the magic,
  version 17 and last compatible version 16 in its header. For \<open>blob_rt\<close>, serialized
  into a buffer of exactly the total size, the header is as claimed, the first tree
  has a root \<^verbatim>\<open>/\<close> with two properties, and the second tree has no root at all.
\<close>

theorem round_trip_loses_the_tree:
  "\<exists>st1 st2. dtb_init mem_rt initial_state 0 host_ops = Some (True, st1)
     \<and> dtb_finalise_to_buffer mem_rt st1 (Some 256) 103 0 = Some (Bytes 103, mem_rt_out)
     \<and> dtb_init mem_rt_out initial_state 256 host_ops = Some (True, st2)
     \<and> be32 (rd32 mem_rt_out 256) = FDT_MAGIC
     \<and> be32 (rd32 mem_rt_out 276) = 17 \<and> be32 (rd32 mem_rt_out 280) = 16
     \<and> root st1 = Some 0
     \<and> dtb_stat_node st1 (root st1) stat
         = Some (True, stat\<lparr>stat_name := CLit ''/'', stat_prop_count := 2, stat_child_count := 0,
                                stat_sibling_count := 0\<rparr>)
     \<and> root st2 = None
     \<and> dtb_stat_node st2 (root st2) stat = Some (False, stat)"
proof -
  from parse_rt obtain st1 where
    "dtb_init mem_rt initial_state 0 host_ops = Some (True, st1)"
    and st: "root st1 = Some 0"
    "node_buff st1 0 = \<lparr>n_parent = None, n_sibling = None, n_child = None, n_props = Some 1,
                           n_name = CNull\<rparr>"
    "prop_buff st1 1 = \<lparr>p_name = CPtr 103, p_first_cell = 92, p_length = 0, p_next = Some 0\<rparr>"
    "prop_buff st1 0 = \<lparr>p_name = CPtr 100, p_first_cell = 76, p_length = 4, p_next = None\<rparr>"
    by blast
  moreover from parse_rt_out obtain st2 where
    "dtb_init mem_rt_out initial_state 256 host_ops = Some (True, st2)" "root st2 = None"
    by blast
  ultimately show ?thesis
    using finalise_rt(3) [OF st, of 103]
    by (intro exI [of _ st1] exI [of _ st2])
       (simp add: mem_rt_out_cells FDT_MAGIC_def query_eval)
qed

end
